theory Spec2Isabelle
  imports Complex_Main "HOL-Library.AList"
begin

section \<open>Data model (types.ts)\<close>

text \<open>
  A JavaScript \<open>Map\<close> iterates in insertion order, \<open>set\<close> on a present key keeps the
  key's position and \<open>delete\<close> removes the entry: an association list with
  \<open>AList.update\<close>, \<open>AList.delete\<close> and \<open>map_of\<close>; \<open>size\<close> is \<open>length\<close>.

  A WebSocket object is identified by a number (\<open>sock\<close>). Participant objects are
  mutated in place and shared between the rooms, the signaling server's socket table
  and the handlers' local variables, so they live in a store (\<open>heap\<close>) and everything
  else holds their address (\<open>addr\<close>). Rooms are only ever reached through the room
  table; waiting participants are never mutated: both are stored by value.
\<close>

type_synonym sock = nat
type_synonym addr = nat

text \<open>
  A JavaScript \<open>number\<close>: a finite value (every finite double is a rational; \<open>-0\<close>
  compares as \<open>0\<close>), \<open>NaN\<close> or an infinity. \<open>maxParticipants\<close> is such a number and
  nothing checks it: the REST endpoint hands over whatever \<open>JSON.parse\<close> produced
  (\<open>1.5\<close>, \<open>-1\<close>, \<open>1e999\<close>, ...).

  \<open>size_ge k n\<close> is the comparison \<open>size >= n\<close> of a collection's size \<open>k\<close> with such a
  number: with \<open>NaN\<close> it is false.
\<close>

datatype Number = Finite rat | NaN | PosInfinity | NegInfinity

definition size_ge :: "nat \<Rightarrow> Number \<Rightarrow> bool" where
  "size_ge k n =
     (case n of Finite q \<Rightarrow> q \<le> of_nat k | NaN \<Rightarrow> False
      | PosInfinity \<Rightarrow> False | NegInfinity \<Rightarrow> True)"

text \<open>
  \<open>name\<close> is whatever the join envelope carried: absent when the client left it out.
\<close>

record Participant =
  p_id :: string
  p_name :: "string option"
  p_socket :: sock
  p_roomId :: string
  p_isModerator :: bool
  p_isMuted :: bool
  p_isVideoOff :: bool
  p_isHandRaised :: bool
  p_joinedAt :: int

record WaitingParticipant =
  w_id :: string
  w_name :: "string option"
  w_socket :: sock
  w_requestedAt :: int

text \<open>\<open>isPreCreated?: boolean\<close> is only ever absent or \<open>true\<close>; absent is \<open>False\<close>.\<close>

record Room =
  r_id :: string
  r_participants :: "(string \<times> addr) list"
  r_waitingRoom :: "(string \<times> WaitingParticipant) list"
  r_password :: "string option"
  r_isLocked :: bool
  r_hostId :: "string option"
  r_createdAt :: int
  r_maxParticipants :: Number
  r_creatorToken :: "string option"
  r_isPreCreated :: bool

record RoomConfig =
  c_password :: "string option"
  c_maxParticipants :: "Number option"

record PreCreatedRoomData =
  d_roomId :: string
  d_password :: "string option"
  d_creatorToken :: string
  d_createdAt :: int
  d_maxParticipants :: Number

text \<open>\<open>Partial<Participant>\<close>: every field may be absent.\<close>

record ParticipantPatch =
  u_id :: "string option"
  u_name :: "string option option"
  u_socket :: "sock option"
  u_roomId :: "string option"
  u_isModerator :: "bool option"
  u_isMuted :: "bool option"
  u_isVideoOff :: "bool option"
  u_isHandRaised :: "bool option"
  u_joinedAt :: "int option"

datatype MessageType =
    Join | Leave | Offer | Answer | IceCandidate | ParticipantJoined | ParticipantLeft
  | ParticipantUpdated | Chat | FileOffer | FileAnswer | FileChunk | ModeratorActionT
  | RoomLocked | RoomUnlocked | WaitingRoom | AdmitUser | RejectUser | RaiseHand | LowerHand
  | RecordingStarted | RecordingStopped | QualityChange | ErrorT | OtherType string

datatype ModeratorAction = Mute | Unmute | Kick | MakeModerator

text \<open>
  A decoded JSON envelope: the four common fields and the optional fields the server
  reads or writes. The fields it only passes through (\<open>sdp\<close>, \<open>candidate\<close>,
  \<open>chunk\<close>, \<open>text\<close>, ...) are kept together in \<open>m_rest\<close>.
\<close>

record Message =
  m_type :: MessageType
  m_roomId :: string
  m_participantId :: string
  m_timestamp :: int
  m_targetId :: "string option"
  m_name :: "string option"
  m_password :: "string option"
  m_isHost :: "bool option"
  m_creatorToken :: "string option"
  m_isModerator :: "bool option"
  m_isMuted :: "bool option"
  m_isVideoOff :: "bool option"
  m_isHandRaised :: "bool option"
  m_action :: "ModeratorAction option"
  m_reason :: "string option"
  m_lockedBy :: "string option"
  m_unlockedBy :: "string option"
  m_message :: "string option"
  m_code :: "string option"
  m_rest :: string

text \<open>What the server does to a socket: write a frame or close it.\<close>

datatype Frame = Send Message | Close

text \<open>
  The state of the process: the \<open>RoomManager\<close> fields, the \<open>SignalingServer\<close>
  tables, the Participant objects, the sockets (their \<open>readyState\<close> and every frame
  written so far, oldest first) and the records last written to the latent-room file.
\<close>

record World =
  rooms :: "(string \<times> Room) list"
  peakParticipants :: nat
  maxLatentRooms :: nat
  latentRoomMaxAgeMs :: int
  persisted :: "PreCreatedRoomData list"
  heap :: "addr \<Rightarrow> Participant"
  nextAddr :: addr
  readyState :: "sock \<Rightarrow> nat"
  outbox :: "(sock \<times> Frame) list"
  participants :: "sock \<Rightarrow> addr option"
  waitingParticipants :: "sock \<Rightarrow> WaitingParticipant option"

section \<open>Sockets (WebSocketConnection in index.ts)\<close>

definition socket_send :: "sock \<Rightarrow> Message \<Rightarrow> World \<Rightarrow> World" where
  "socket_send s m w =
     (if readyState w s \<noteq> 1 then w else w\<lparr>outbox := outbox w @ [(s, Send m)]\<rparr>)"

definition socket_close :: "sock \<Rightarrow> World \<Rightarrow> World" where
  "socket_close s w =
     (if readyState w s = 3 then w
      else w\<lparr>readyState := (readyState w)(s := 2), outbox := outbox w @ [(s, Close)]\<rparr>)"

text \<open>
  A connection is accepted: the \<open>WebSocketConnection\<close> constructor leaves the socket
  \<open>OPEN\<close>, and \<open>handleConnection\<close> only registers the listeners.
\<close>

definition handleConnection :: "sock \<Rightarrow> World \<Rightarrow> World" where
  "handleConnection s w = w\<lparr>readyState := (readyState w)(s := 1)\<rparr>"

text \<open>\<open>new\<close> of a Participant object literal.\<close>

definition new_participant :: "Participant \<Rightarrow> World \<Rightarrow> addr \<times> World" where
  "new_participant p w =
     (nextAddr w, w\<lparr>heap := (heap w)(nextAddr w := p), nextAddr := Suc (nextAddr w)\<rparr>)"

section \<open>RoomManager (room-manager.ts)\<close>

definition defaultMaxParticipants :: Number where
  "defaultMaxParticipants = Finite 8"

definition getRoom :: "World \<Rightarrow> string \<Rightarrow> Room option" where
  "getRoom w roomId = map_of (rooms w) roomId"

text \<open>\<open>this.rooms.set(roomId, room)\<close>, and writing to a field of the room stored there.\<close>

definition rooms_set :: "string \<Rightarrow> Room \<Rightarrow> World \<Rightarrow> World" where
  "rooms_set roomId room w = w\<lparr>rooms := AList.update roomId room (rooms w)\<rparr>"

definition createRoom :: "string \<Rightarrow> RoomConfig option \<Rightarrow> int \<Rightarrow> World \<Rightarrow> Room \<times> World" where
  "createRoom roomId config now w =
     (let room = \<lparr> r_id = roomId, r_participants = [], r_waitingRoom = [],
                   r_password = (case config of None \<Rightarrow> None | Some c \<Rightarrow> c_password c),
                   r_isLocked = False, r_hostId = None, r_createdAt = now,
                   r_maxParticipants =
                     (case config of None \<Rightarrow> defaultMaxParticipants
                      | Some c \<Rightarrow> (case c_maxParticipants c of
                                    None \<Rightarrow> defaultMaxParticipants | Some n \<Rightarrow> n)),
                   r_creatorToken = None, r_isPreCreated = False \<rparr>
      in (room, rooms_set roomId room w))"

definition getLatentRoomCount :: "World \<Rightarrow> nat" where
  "getLatentRoomCount w =
     length (filter (\<lambda>(k, room). r_isPreCreated room \<and> r_participants room = []) (rooms w))"

text \<open>\<open>if (room.isPreCreated && room.creatorToken)\<close>: the empty string is falsy.\<close>

definition persistPreCreatedRooms :: "World \<Rightarrow> World" where
  "persistPreCreatedRooms w =
     w\<lparr>persisted :=
         concat (map (\<lambda>(k, room).
           (case r_creatorToken room of
              None \<Rightarrow> []
            | Some t \<Rightarrow>
                if r_isPreCreated room \<and> t \<noteq> []
                then [\<lparr> d_roomId = r_id room, d_password = r_password room,
                        d_creatorToken = t, d_createdAt = r_createdAt room,
                        d_maxParticipants = r_maxParticipants room \<rparr>]
                else [])) (rooms w))\<rparr>"

text \<open>
  \<open>randomUUID()\<close> is the environment's choice: the generated room id and the creator
  token are arguments (\<open>genId\<close>, \<open>token\<close>).
\<close>

definition preCreateRoom ::
  "string option \<Rightarrow> string option \<Rightarrow> Number option \<Rightarrow> string \<Rightarrow> string \<Rightarrow> int \<Rightarrow> World
   \<Rightarrow> (string \<times> string) option \<times> World" where
  "preCreateRoom optRoomId optPassword optMax genId token now w =
     (if getLatentRoomCount w \<ge> maxLatentRooms w then (None, w)
      else
        let roomId = (case optRoomId of None \<Rightarrow> genId | Some i \<Rightarrow> i) in
        if map_of (rooms w) roomId \<noteq> None then (None, w)
        else
          let room = \<lparr> r_id = roomId, r_participants = [], r_waitingRoom = [],
                       r_password = optPassword, r_isLocked = False, r_hostId = None,
                       r_createdAt = now,
                       r_maxParticipants =
                         (case optMax of None \<Rightarrow> defaultMaxParticipants | Some n \<Rightarrow> n),
                       r_creatorToken = Some token, r_isPreCreated = True \<rparr>
          in (Some (roomId, token), persistPreCreatedRooms (rooms_set roomId room w)))"

definition validateCreatorToken :: "World \<Rightarrow> string \<Rightarrow> string \<Rightarrow> bool" where
  "validateCreatorToken w roomId token =
     (case getRoom w roomId of
        None \<Rightarrow> False
      | Some room \<Rightarrow>
          (case r_creatorToken room of
             None \<Rightarrow> False
           | Some t \<Rightarrow> if t = [] then False else t = token))"

definition loadPreCreatedRooms :: "PreCreatedRoomData list \<Rightarrow> int \<Rightarrow> World \<Rightarrow> World" where
  "loadPreCreatedRooms file now w =
     fold (\<lambda>roomData w'.
            if now - d_createdAt roomData > latentRoomMaxAgeMs w' then w'
            else rooms_set (d_roomId roomData)
                   \<lparr> r_id = d_roomId roomData, r_participants = [], r_waitingRoom = [],
                     r_password = d_password roomData, r_isLocked = False, r_hostId = None,
                     r_createdAt = d_createdAt roomData,
                     r_maxParticipants = d_maxParticipants roomData,
                     r_creatorToken = Some (d_creatorToken roomData),
                     r_isPreCreated = True \<rparr> w')
          file w"

definition getOrCreateRoom :: "string \<Rightarrow> RoomConfig option \<Rightarrow> int \<Rightarrow> World \<Rightarrow> Room \<times> World" where
  "getOrCreateRoom roomId config now w =
     (case getRoom w roomId of
        Some existing \<Rightarrow> (existing, w)
      | None \<Rightarrow> createRoom roomId config now w)"

text \<open>\<open>!room.password\<close> holds for an absent password and for the empty string.\<close>

definition validatePassword :: "World \<Rightarrow> string \<Rightarrow> string option \<Rightarrow> bool" where
  "validatePassword w roomId password =
     (case getRoom w roomId of
        None \<Rightarrow> True
      | Some room \<Rightarrow>
          if r_password room = None \<or> r_password room = Some [] then True
          else r_password room = password)"

definition addToWaitingRoom :: "string \<Rightarrow> WaitingParticipant \<Rightarrow> int \<Rightarrow> World \<Rightarrow> bool \<times> World" where
  "addToWaitingRoom roomId participant now w =
     (let found = getOrCreateRoom roomId None now w;
          room = fst found;
          w1 = snd found
      in
      if size_ge (length (r_participants room)) (r_maxParticipants room) then (False, w1)
      else (True,
            rooms_set roomId
              (room\<lparr>r_waitingRoom :=
                      AList.update (w_id participant) participant (r_waitingRoom room)\<rparr>) w1))"

definition admitFromWaitingRoom ::
  "string \<Rightarrow> string \<Rightarrow> World \<Rightarrow> WaitingParticipant option \<times> World" where
  "admitFromWaitingRoom roomId participantId w =
     (case getRoom w roomId of
        None \<Rightarrow> (None, w)
      | Some room \<Rightarrow>
          (case map_of (r_waitingRoom room) participantId of
             None \<Rightarrow> (None, w)
           | Some participant \<Rightarrow>
               (Some participant,
                rooms_set roomId
                  (room\<lparr>r_waitingRoom := AList.delete participantId (r_waitingRoom room)\<rparr>)
                  w)))"

definition rejectFromWaitingRoom ::
  "string \<Rightarrow> string \<Rightarrow> World \<Rightarrow> WaitingParticipant option \<times> World" where
  "rejectFromWaitingRoom roomId participantId w =
     (case getRoom w roomId of
        None \<Rightarrow> (None, w)
      | Some room \<Rightarrow>
          (case map_of (r_waitingRoom room) participantId of
             None \<Rightarrow> (None, w)
           | Some participant \<Rightarrow>
               (Some participant,
                rooms_set roomId
                  (room\<lparr>r_waitingRoom := AList.delete participantId (r_waitingRoom room)\<rparr>)
                  w)))"

definition getTotalParticipants :: "World \<Rightarrow> nat" where
  "getTotalParticipants w = sum_list (map (\<lambda>(k, room). length (r_participants room)) (rooms w))"

text \<open>
  \<open>participant\<close> is the address of the caller's object; \<open>participant.isModerator = true\<close>
  writes to that object.
\<close>

definition addParticipant :: "string \<Rightarrow> addr \<Rightarrow> bool \<Rightarrow> int \<Rightarrow> World \<Rightarrow> bool \<times> World" where
  "addParticipant roomId participant isHost now w =
     (let found = getOrCreateRoom roomId None now w;
          room = fst found;
          w1 = snd found
      in
      if size_ge (length (r_participants room)) (r_maxParticipants room) then (False, w1)
      else
        let becomesHost = (r_participants room = [] \<or> isHost);
            pid = p_id (heap w1 participant);
            room1 = (if becomesHost then room\<lparr>r_hostId := Some pid\<rparr> else room);
            w2 = (if becomesHost
                  then w1\<lparr>heap := (heap w1)
                            (participant := (heap w1 participant)\<lparr>p_isModerator := True\<rparr>)\<rparr>
                  else w1);
            room2 = room1\<lparr>r_participants := AList.update pid participant (r_participants room1)\<rparr>;
            w3 = rooms_set roomId room2 w2;
            currentTotal = getTotalParticipants w3
        in (True, if currentTotal > peakParticipants w3
                  then w3\<lparr>peakParticipants := currentTotal\<rparr> else w3))"

text \<open>
  \<open>room.participants.values().next().value\<close> is the first remaining participant in
  insertion order; it is only read when a participant remains.
\<close>

definition removeParticipant :: "string \<Rightarrow> string \<Rightarrow> World \<Rightarrow> World" where
  "removeParticipant roomId participantId w =
     (case getRoom w roomId of
        None \<Rightarrow> w
      | Some room \<Rightarrow>
          let ps = AList.delete participantId (r_participants room);
              room1 = room\<lparr>r_participants := ps\<rparr>;
              hostLeft = (r_hostId room = Some participantId \<and> ps \<noteq> []);
              newHost = snd (hd ps);
              room2 = (if hostLeft then room1\<lparr>r_hostId := Some (p_id (heap w newHost))\<rparr>
                       else room1);
              w1 = (if hostLeft
                    then w\<lparr>heap := (heap w)
                              (newHost := (heap w newHost)\<lparr>p_isModerator := True\<rparr>)\<rparr>
                    else w)
          in if ps = [] \<and> \<not> r_isPreCreated room
             then w1\<lparr>rooms := AList.delete roomId (rooms w1)\<rparr>
             else rooms_set roomId room2 w1)"

text \<open>\<open>Object.assign(participant, updates)\<close>: every field the patch carries is written.\<close>

definition assign :: "Participant \<Rightarrow> ParticipantPatch \<Rightarrow> Participant" where
  "assign p u =
     \<lparr> p_id = (case u_id u of None \<Rightarrow> p_id p | Some v \<Rightarrow> v),
       p_name = (case u_name u of None \<Rightarrow> p_name p | Some v \<Rightarrow> v),
       p_socket = (case u_socket u of None \<Rightarrow> p_socket p | Some v \<Rightarrow> v),
       p_roomId = (case u_roomId u of None \<Rightarrow> p_roomId p | Some v \<Rightarrow> v),
       p_isModerator = (case u_isModerator u of None \<Rightarrow> p_isModerator p | Some v \<Rightarrow> v),
       p_isMuted = (case u_isMuted u of None \<Rightarrow> p_isMuted p | Some v \<Rightarrow> v),
       p_isVideoOff = (case u_isVideoOff u of None \<Rightarrow> p_isVideoOff p | Some v \<Rightarrow> v),
       p_isHandRaised = (case u_isHandRaised u of None \<Rightarrow> p_isHandRaised p | Some v \<Rightarrow> v),
       p_joinedAt = (case u_joinedAt u of None \<Rightarrow> p_joinedAt p | Some v \<Rightarrow> v) \<rparr>"

definition updateParticipant :: "string \<Rightarrow> string \<Rightarrow> ParticipantPatch \<Rightarrow> World \<Rightarrow> World" where
  "updateParticipant roomId participantId updates w =
     (case getRoom w roomId of
        None \<Rightarrow> w
      | Some room \<Rightarrow>
          (case map_of (r_participants room) participantId of
             None \<Rightarrow> w
           | Some participant \<Rightarrow>
               w\<lparr>heap := (heap w)(participant := assign (heap w participant) updates)\<rparr>))"

definition lockRoom :: "string \<Rightarrow> World \<Rightarrow> World" where
  "lockRoom roomId w =
     (case getRoom w roomId of
        None \<Rightarrow> w
      | Some room \<Rightarrow> rooms_set roomId (room\<lparr>r_isLocked := True\<rparr>) w)"

definition unlockRoom :: "string \<Rightarrow> World \<Rightarrow> World" where
  "unlockRoom roomId w =
     (case getRoom w roomId of
        None \<Rightarrow> w
      | Some room \<Rightarrow> rooms_set roomId (room\<lparr>r_isLocked := False\<rparr>) w)"

definition isRoomLocked :: "World \<Rightarrow> string \<Rightarrow> bool" where
  "isRoomLocked w roomId = (case getRoom w roomId of None \<Rightarrow> False | Some room \<Rightarrow> r_isLocked room)"

definition getParticipants :: "World \<Rightarrow> string \<Rightarrow> addr list" where
  "getParticipants w roomId =
     (case getRoom w roomId of None \<Rightarrow> [] | Some room \<Rightarrow> map snd (r_participants room))"

definition getWaitingParticipants :: "World \<Rightarrow> string \<Rightarrow> WaitingParticipant list" where
  "getWaitingParticipants w roomId =
     (case getRoom w roomId of None \<Rightarrow> [] | Some room \<Rightarrow> map snd (r_waitingRoom room))"

definition getOtherParticipants :: "World \<Rightarrow> string \<Rightarrow> string \<Rightarrow> addr list" where
  "getOtherParticipants w roomId excludeId =
     filter (\<lambda>p. p_id (heap w p) \<noteq> excludeId) (getParticipants w roomId)"

text \<open>The sends of \<open>broadcast\<close>'s loop over the already computed recipient list.\<close>

fun send_each :: "addr list \<Rightarrow> Message \<Rightarrow> World \<Rightarrow> World" where
  "send_each [] message w = w"
| "send_each (participant # rest) message w =
     send_each rest message
       (if readyState w (p_socket (heap w participant)) = 1
        then socket_send (p_socket (heap w participant)) message w else w)"

definition broadcast :: "string \<Rightarrow> Message \<Rightarrow> string option \<Rightarrow> World \<Rightarrow> World" where
  "broadcast roomId message excludeId w =
     send_each
       (getOtherParticipants w roomId (case excludeId of None \<Rightarrow> [] | Some e \<Rightarrow> e))
       message w"

definition sendTo :: "string \<Rightarrow> string \<Rightarrow> Message \<Rightarrow> World \<Rightarrow> World" where
  "sendTo participantId roomId message w =
     (case getRoom w roomId of
        None \<Rightarrow> w
      | Some room \<Rightarrow>
          (case map_of (r_participants room) participantId of
             None \<Rightarrow> w
           | Some participant \<Rightarrow>
               if readyState w (p_socket (heap w participant)) = 1
               then socket_send (p_socket (heap w participant)) message w
               else w))"

definition getRoomCount :: "World \<Rightarrow> nat" where
  "getRoomCount w = length (rooms w)"

text \<open>
  The loop deletes while it iterates; each room is tested on its own fields, so the
  result is the table without the rooms that meet the test.
\<close>

definition abandoned :: "World \<Rightarrow> int \<Rightarrow> int \<Rightarrow> Room \<Rightarrow> bool" where
  "abandoned w maxAgeMs now room =
     (r_participants room = [] \<and>
      now - r_createdAt room > (if r_isPreCreated room then latentRoomMaxAgeMs w else maxAgeMs))"

definition cleanupAbandonedRooms :: "int \<Rightarrow> int \<Rightarrow> World \<Rightarrow> nat \<times> World" where
  "cleanupAbandonedRooms maxAgeMs now w =
     (let gone = filter (\<lambda>(k, room). abandoned w maxAgeMs now room) (rooms w);
          w1 = w\<lparr>rooms := filter (\<lambda>(k, room). \<not> abandoned w maxAgeMs now room) (rooms w)\<rparr>
      in (length gone,
          if list_ex (\<lambda>(k, room). r_isPreCreated room) gone
          then persistPreCreatedRooms w1 else w1))"

definition isModerator :: "World \<Rightarrow> string \<Rightarrow> string \<Rightarrow> bool" where
  "isModerator w roomId participantId =
     (case getRoom w roomId of
        None \<Rightarrow> False
      | Some room \<Rightarrow>
          (case map_of (r_participants room) participantId of
             None \<Rightarrow> False
           | Some participant \<Rightarrow> p_isModerator (heap w participant)))"

definition kickParticipant :: "string \<Rightarrow> string \<Rightarrow> World \<Rightarrow> addr option \<times> World" where
  "kickParticipant roomId participantId w =
     (case getRoom w roomId of
        None \<Rightarrow> (None, w)
      | Some room \<Rightarrow>
          (case map_of (r_participants room) participantId of
             None \<Rightarrow> (None, w)
           | Some participant \<Rightarrow>
               let w1 = (if readyState w (p_socket (heap w participant)) = 1
                         then socket_close (p_socket (heap w participant)) w else w)
               in (Some participant, removeParticipant roomId participantId w1)))"


section \<open>SignalingServer (signaling-server.ts)\<close>

text \<open>An envelope with the four common fields and nothing else.\<close>

definition envelope :: "MessageType \<Rightarrow> string \<Rightarrow> string \<Rightarrow> int \<Rightarrow> Message" where
  "envelope t roomId participantId now =
     \<lparr> m_type = t, m_roomId = roomId, m_participantId = participantId, m_timestamp = now,
       m_targetId = None, m_name = None, m_password = None, m_isHost = None,
       m_creatorToken = None, m_isModerator = None, m_isMuted = None, m_isVideoOff = None,
       m_isHandRaised = None, m_action = None, m_reason = None, m_lockedBy = None,
       m_unlockedBy = None, m_message = None, m_code = None, m_rest = [] \<rparr>"

definition errorMessage :: "string \<Rightarrow> string option \<Rightarrow> int \<Rightarrow> Message" where
  "errorMessage message code now =
     (envelope ErrorT [] [] now)\<lparr>m_message := Some message, m_code := code\<rparr>"

definition sendError :: "sock \<Rightarrow> string \<Rightarrow> string option \<Rightarrow> int \<Rightarrow> World \<Rightarrow> World" where
  "sendError socket message code now w =
     (if readyState w socket = 1
      then socket_send socket (errorMessage message code now) w
      else w)"

text \<open>JavaScript truthiness of an optional string and of an optional boolean.\<close>

definition truthy_str :: "string option \<Rightarrow> bool" where
  "truthy_str x = (case x of None \<Rightarrow> False | Some v \<Rightarrow> v \<noteq> [])"

definition truthy_bool :: "bool option \<Rightarrow> bool" where
  "truthy_bool x = (case x of None \<Rightarrow> False | Some v \<Rightarrow> v)"

definition joined_message :: "string \<Rightarrow> Participant \<Rightarrow> int \<Rightarrow> Message" where
  "joined_message roomId p now =
     (envelope ParticipantJoined roomId (p_id p) now)
       \<lparr>m_name := p_name p, m_isModerator := Some (p_isModerator p),
        m_isMuted := Some (p_isMuted p), m_isVideoOff := Some (p_isVideoOff p)\<rparr>"

text \<open>The loop that notifies the moderators of a room of a waiting candidate.\<close>

fun notify_moderators :: "addr list \<Rightarrow> Message \<Rightarrow> World \<Rightarrow> World" where
  "notify_moderators [] message w = w"
| "notify_moderators (p # rest) message w =
     notify_moderators rest message
       (if p_isModerator (heap w p) \<and> readyState w (p_socket (heap w p)) = 1
        then socket_send (p_socket (heap w p)) message w else w)"

text \<open>The loop that describes each participant already in the room to a newcomer.\<close>

fun send_existing :: "sock \<Rightarrow> string \<Rightarrow> addr list \<Rightarrow> int \<Rightarrow> World \<Rightarrow> World" where
  "send_existing socket roomId [] now w = w"
| "send_existing socket roomId (existing # rest) now w =
     send_existing socket roomId rest now
       (socket_send socket (joined_message roomId (heap w existing) now) w)"

text \<open>\<open>participantId\<close> is the id that \<open>randomUUID()\<close> returns.\<close>

definition handleJoin :: "sock \<Rightarrow> Message \<Rightarrow> string \<Rightarrow> int \<Rightarrow> World \<Rightarrow> World" where
  "handleJoin socket message participantId now w =
     (let existingRoom = getRoom w (m_roomId message) in
      if \<not> truthy_bool (m_isHost message) \<and> existingRoom = None
      then sendError socket ''Meeting not found. Check the code and try again.''
             (Some ''ROOM_NOT_FOUND'') now w
      else if existingRoom \<noteq> None \<and> \<not> validatePassword w (m_roomId message) (m_password message)
      then sendError socket ''Invalid room password'' (Some ''INVALID_PASSWORD'') now w
      else
        let isCreator =
              (truthy_str (m_creatorToken message) \<and>
               validateCreatorToken w (m_roomId message) (the (m_creatorToken message)))
        in
        if isRoomLocked w (m_roomId message) \<and> \<not> isCreator
        then
          let waitingParticipant =
                \<lparr> w_id = participantId, w_name = m_name message, w_socket = socket,
                  w_requestedAt = now \<rparr>;
              waiting = addToWaitingRoom (m_roomId message) waitingParticipant now w;
              w1 = snd waiting
          in
          if fst waiting
          then
            let w2 = w1\<lparr>waitingParticipants :=
                          (waitingParticipants w1)(socket \<mapsto> waitingParticipant)\<rparr>;
                waitingAck = (envelope WaitingRoom (m_roomId message) participantId now)
                               \<lparr>m_name := m_name message\<rparr>;
                w3 = socket_send socket waitingAck w2
            in notify_moderators (getParticipants w3 (m_roomId message)) waitingAck w3
          else sendError socket ''Room is full'' None now w1
        else
          let w1 = (if truthy_str (m_password message) \<and> existingRoom = None
                    then snd (createRoom (m_roomId message)
                                (Some \<lparr> c_password = m_password message,
                                        c_maxParticipants = None \<rparr>) now w)
                    else w);
              created =
                new_participant
                  \<lparr> p_id = participantId, p_name = m_name message, p_socket = socket,
                    p_roomId = m_roomId message, p_isModerator = False, p_isMuted = False,
                    p_isVideoOff = False, p_isHandRaised = False, p_joinedAt = now \<rparr> w1;
              participant = fst created;
              added =
                addParticipant (m_roomId message) participant
                  (truthy_bool (m_isHost message) \<or> isCreator) now (snd created);
              w3 = snd added
          in
          if \<not> fst added then sendError socket ''Room is full'' None now w3
          else
            let w4 = (case getRoom w3 (m_roomId message) of
                        None \<Rightarrow> w3
                      | Some room \<Rightarrow>
                          if isCreator \<or> length (r_participants room) = 1
                          then (rooms_set (m_roomId message)
                                  (room\<lparr>r_hostId := Some (p_id (heap w3 participant))\<rparr>) w3)
                                 \<lparr>heap := (heap w3)
                                    (participant :=
                                       (heap w3 participant)\<lparr>p_isModerator := True\<rparr>)\<rparr>
                          else w3);
                w5 = w4\<lparr>participants := (participants w4)(socket \<mapsto> participant)\<rparr>;
                joinNotification = joined_message (m_roomId message) (heap w5 participant) now;
                w6 = broadcast (m_roomId message) joinNotification (Some participantId) w5;
                w7 = socket_send socket joinNotification w6
            in send_existing socket (m_roomId message)
                 (getOtherParticipants w7 (m_roomId message) participantId) now w7)"

text \<open>
  The first room, in the table's order, whose waiting map has the id.
\<close>

definition findRoomForWaitingParticipant :: "World \<Rightarrow> string \<Rightarrow> string option" where
  "findRoomForWaitingParticipant w participantId =
     (case filter (\<lambda>(roomId, room). map_of (r_waitingRoom room) participantId \<noteq> None) (rooms w) of
        [] \<Rightarrow> None
      | (roomId, room) # rest \<Rightarrow> Some roomId)"

definition handleDisconnect :: "sock \<Rightarrow> int \<Rightarrow> World \<Rightarrow> World" where
  "handleDisconnect socket now w =
     (case participants w socket of
        Some participant \<Rightarrow>
          let p = heap w participant;
              w1 = removeParticipant (p_roomId p) (p_id p) w;
              w2 = w1\<lparr>participants := (participants w1)(socket := None)\<rparr>
          in broadcast (p_roomId p) (envelope ParticipantLeft (p_roomId p) (p_id p) now) None w2
      | None \<Rightarrow>
          (case waitingParticipants w socket of
             None \<Rightarrow> w
           | Some waitingParticipant \<Rightarrow>
               let w1 = (case findRoomForWaitingParticipant w (w_id waitingParticipant) of
                           None \<Rightarrow> w
                         | Some roomId \<Rightarrow>
                             snd (rejectFromWaitingRoom roomId (w_id waitingParticipant) w))
               in w1\<lparr>waitingParticipants := (waitingParticipants w1)(socket := None)\<rparr>))"

definition handleLeave :: "sock \<Rightarrow> int \<Rightarrow> World \<Rightarrow> World" where
  "handleLeave socket now w = handleDisconnect socket now w"

definition handleChat :: "sock \<Rightarrow> Message \<Rightarrow> int \<Rightarrow> World \<Rightarrow> World" where
  "handleChat socket message now w =
     (case participants w socket of
        None \<Rightarrow> sendError socket ''Not joined to a room'' None now w
      | Some participant \<Rightarrow>
          let p = heap w participant;
              chatMessage = message\<lparr>m_participantId := p_id p, m_timestamp := now\<rparr>;
              w1 = broadcast (p_roomId p) chatMessage (Some (p_id p)) w
          in socket_send socket chatMessage w1)"

definition handleParticipantUpdate :: "sock \<Rightarrow> Message \<Rightarrow> int \<Rightarrow> World \<Rightarrow> World" where
  "handleParticipantUpdate socket message now w =
     (case participants w socket of
        None \<Rightarrow> sendError socket ''Not joined to a room'' None now w
      | Some participant \<Rightarrow>
          let p0 = heap w participant;
              p1 = (case m_isMuted message of None \<Rightarrow> p0 | Some b \<Rightarrow> p0\<lparr>p_isMuted := b\<rparr>);
              p2 = (case m_isVideoOff message of None \<Rightarrow> p1 | Some b \<Rightarrow> p1\<lparr>p_isVideoOff := b\<rparr>);
              p3 = (case m_isHandRaised message of None \<Rightarrow> p2
                    | Some b \<Rightarrow> p2\<lparr>p_isHandRaised := b\<rparr>);
              w1 = w\<lparr>heap := (heap w)(participant := p3)\<rparr>;
              updateMessage = (envelope ParticipantUpdated (p_roomId p3) (p_id p3) now)
                                \<lparr>m_isMuted := Some (p_isMuted p3),
                                 m_isVideoOff := Some (p_isVideoOff p3),
                                 m_isHandRaised := Some (p_isHandRaised p3)\<rparr>
          in broadcast (p_roomId p3) updateMessage (Some (p_id p3)) w1)"

definition handleRaiseHand :: "sock \<Rightarrow> int \<Rightarrow> World \<Rightarrow> World" where
  "handleRaiseHand socket now w =
     (case participants w socket of
        None \<Rightarrow> w
      | Some participant \<Rightarrow>
          let p = (heap w participant)\<lparr>p_isHandRaised := True\<rparr>;
              w1 = w\<lparr>heap := (heap w)(participant := p)\<rparr>
          in broadcast (p_roomId p) (envelope RaiseHand (p_roomId p) (p_id p) now)
               (Some (p_id p)) w1)"

definition handleLowerHand :: "sock \<Rightarrow> int \<Rightarrow> World \<Rightarrow> World" where
  "handleLowerHand socket now w =
     (case participants w socket of
        None \<Rightarrow> w
      | Some participant \<Rightarrow>
          let p = (heap w participant)\<lparr>p_isHandRaised := False\<rparr>;
              w1 = w\<lparr>heap := (heap w)(participant := p)\<rparr>
          in broadcast (p_roomId p) (envelope LowerHand (p_roomId p) (p_id p) now)
               (Some (p_id p)) w1)"

text \<open>
  \<open>getParticipants(roomId).find((p) => p.id === message.targetId)\<close>; an absent
  \<open>targetId\<close> equals no participant's id.
\<close>

definition find_target :: "World \<Rightarrow> string \<Rightarrow> string option \<Rightarrow> addr option" where
  "find_target w roomId targetId =
     (case targetId of
        None \<Rightarrow> None
      | Some t \<Rightarrow> List.find (\<lambda>p. p_id (heap w p) = t) (getParticipants w roomId))"

definition no_patch :: ParticipantPatch where
  "no_patch = \<lparr> u_id = None, u_name = None, u_socket = None, u_roomId = None,
                u_isModerator = None, u_isMuted = None, u_isVideoOff = None,
                u_isHandRaised = None, u_joinedAt = None \<rparr>"

definition handleModeratorAction :: "sock \<Rightarrow> Message \<Rightarrow> int \<Rightarrow> World \<Rightarrow> World" where
  "handleModeratorAction socket message now w =
     (case participants w socket of
        None \<Rightarrow> sendError socket ''Not joined to a room'' None now w
      | Some participant \<Rightarrow>
          let p = heap w participant in
          if \<not> p_isModerator p
          then sendError socket ''Only moderators can perform this action'' None now w
          else
            (case find_target w (p_roomId p) (m_targetId message) of
               None \<Rightarrow> sendError socket ''Target participant not found'' None now w
             | Some targetParticipant \<Rightarrow>
                 let targetId = the (m_targetId message);
                     w1 = (case m_action message of
                             Some Mute \<Rightarrow>
                               updateParticipant (p_roomId p) targetId
                                 (no_patch\<lparr>u_isMuted := Some True\<rparr>) w
                           | Some Unmute \<Rightarrow>
                               updateParticipant (p_roomId p) targetId
                                 (no_patch\<lparr>u_isMuted := Some False\<rparr>) w
                           | Some Kick \<Rightarrow>
                               snd (kickParticipant (p_roomId p) targetId
                                      (sendTo targetId (p_roomId p)
                                         ((envelope ModeratorActionT (p_roomId p) (p_id p) now)
                                            \<lparr>m_targetId := Some targetId,
                                             m_action := Some Kick\<rparr>) w))
                           | Some MakeModerator \<Rightarrow>
                               updateParticipant (p_roomId p) targetId
                                 (no_patch\<lparr>u_isModerator := Some True\<rparr>) w
                           | None \<Rightarrow> w);
                     updateMessage = (envelope ParticipantUpdated (p_roomId p) targetId now)
                                       \<lparr>m_isMuted := Some (p_isMuted (heap w1 targetParticipant)),
                                        m_isHandRaised :=
                                          Some (p_isHandRaised (heap w1 targetParticipant))\<rparr>;
                     w2 = broadcast (p_roomId p) updateMessage None w1;
                     actionMessage = message\<lparr>m_participantId := p_id p, m_timestamp := now\<rparr>
                 in sendTo targetId (p_roomId p) actionMessage w2))"

text \<open>\<open>!participant?.isModerator\<close>: no participant on the socket, or not a moderator.\<close>

definition bound_moderator :: "World \<Rightarrow> sock \<Rightarrow> addr option" where
  "bound_moderator w socket =
     (case participants w socket of
        None \<Rightarrow> None
      | Some participant \<Rightarrow> if p_isModerator (heap w participant) then Some participant else None)"

definition handleRoomLock :: "sock \<Rightarrow> int \<Rightarrow> World \<Rightarrow> World" where
  "handleRoomLock socket now w =
     (case bound_moderator w socket of
        None \<Rightarrow> sendError socket ''Only moderators can lock the room'' None now w
      | Some participant \<Rightarrow>
          let p = heap w participant;
              w1 = lockRoom (p_roomId p) w
          in broadcast (p_roomId p)
               ((envelope RoomLocked (p_roomId p) (p_id p) now)\<lparr>m_lockedBy := Some (p_id p)\<rparr>)
               None w1)"

definition handleRoomUnlock :: "sock \<Rightarrow> int \<Rightarrow> World \<Rightarrow> World" where
  "handleRoomUnlock socket now w =
     (case bound_moderator w socket of
        None \<Rightarrow> sendError socket ''Only moderators can unlock the room'' None now w
      | Some participant \<Rightarrow>
          let p = heap w participant;
              w1 = unlockRoom (p_roomId p) w
          in broadcast (p_roomId p)
               ((envelope RoomUnlocked (p_roomId p) (p_id p) now)
                  \<lparr>m_unlockedBy := Some (p_id p)\<rparr>)
               None w1)"

text \<open>
  \<open>message.targetId\<close> of an admit or reject envelope: an absent one is no key of the
  waiting map.
\<close>

definition handleAdmitUser :: "sock \<Rightarrow> Message \<Rightarrow> int \<Rightarrow> World \<Rightarrow> World" where
  "handleAdmitUser socket message now w =
     (case bound_moderator w socket of
        None \<Rightarrow> sendError socket ''Only moderators can admit users'' None now w
      | Some participant \<Rightarrow>
          let roomId = p_roomId (heap w participant);
              admitted =
                (case m_targetId message of
                   None \<Rightarrow> (None, w)
                 | Some targetId \<Rightarrow> admitFromWaitingRoom roomId targetId w);
              w1 = snd admitted
          in
          (case fst admitted of
             None \<Rightarrow> w1
           | Some waitingParticipant \<Rightarrow>
               let created =
                     new_participant
                       \<lparr> p_id = w_id waitingParticipant, p_name = w_name waitingParticipant,
                         p_socket = w_socket waitingParticipant, p_roomId = roomId,
                         p_isModerator = False, p_isMuted = False, p_isVideoOff = False,
                         p_isHandRaised = False, p_joinedAt = now \<rparr> w1;
                   newParticipant = fst created;
                   w3 = snd (addParticipant roomId newParticipant False now (snd created));
                   socketKey = w_socket waitingParticipant;
                   w4 = w3\<lparr>participants := (participants w3)(socketKey \<mapsto> newParticipant),
                          waitingParticipants := (waitingParticipants w3)(socketKey := None)\<rparr>;
                   np = heap w4 newParticipant;
                   selfJoinMessage =
                     (envelope ParticipantJoined roomId (p_id np) now)
                       \<lparr>m_name := p_name np, m_isModerator := Some False,
                        m_isMuted := Some False, m_isVideoOff := Some False\<rparr>;
                   w5 = socket_send socketKey selfJoinMessage w4;
                   w6 = send_existing socketKey roomId
                          (getOtherParticipants w5 roomId (p_id np)) now w5
               in broadcast roomId selfJoinMessage (Some (p_id np)) w6))"

definition handleRejectUser :: "sock \<Rightarrow> Message \<Rightarrow> int \<Rightarrow> World \<Rightarrow> World" where
  "handleRejectUser socket message now w =
     (case bound_moderator w socket of
        None \<Rightarrow> sendError socket ''Only moderators can reject users'' None now w
      | Some participant \<Rightarrow>
          let roomId = p_roomId (heap w participant);
              rejected =
                (case m_targetId message of
                   None \<Rightarrow> (None, w)
                 | Some targetId \<Rightarrow> rejectFromWaitingRoom roomId targetId w);
              w1 = snd rejected
          in
          (case fst rejected of
             None \<Rightarrow> w1
           | Some waitingParticipant \<Rightarrow>
               let socketKey = w_socket waitingParticipant;
                   w2 = w1\<lparr>waitingParticipants := (waitingParticipants w1)(socketKey := None)\<rparr>;
                   w3 = socket_send socketKey
                          ((envelope RejectUser roomId (w_id waitingParticipant) now)
                             \<lparr>m_reason := m_reason message\<rparr>) w2
               in socket_close socketKey w3))"

definition handleRelayMessage :: "sock \<Rightarrow> Message \<Rightarrow> int \<Rightarrow> World \<Rightarrow> World" where
  "handleRelayMessage socket message now w =
     (case participants w socket of
        None \<Rightarrow> sendError socket ''Not joined to a room'' None now w
      | Some participant \<Rightarrow>
          if truthy_str (m_targetId message)
          then sendTo (the (m_targetId message)) (p_roomId (heap w participant))
                 (message\<lparr>m_participantId := p_id (heap w participant)\<rparr>) w
          else w)"

text \<open>
  \<open>data\<close> is the frame after \<open>JSON.parse\<close>: \<open>None\<close> when it does not parse.
  \<open>uuid\<close> is what \<open>randomUUID()\<close> returns, should the handler ask for it.
\<close>

definition handleMessage :: "sock \<Rightarrow> Message option \<Rightarrow> string \<Rightarrow> int \<Rightarrow> World \<Rightarrow> World" where
  "handleMessage socket data uuid now w =
     (case data of
        None \<Rightarrow> sendError socket ''Invalid message format'' None now w
      | Some message \<Rightarrow>
          (case m_type message of
             Join \<Rightarrow> handleJoin socket message uuid now w
           | Leave \<Rightarrow> handleLeave socket now w
           | Offer \<Rightarrow> handleRelayMessage socket message now w
           | Answer \<Rightarrow> handleRelayMessage socket message now w
           | IceCandidate \<Rightarrow> handleRelayMessage socket message now w
           | FileOffer \<Rightarrow> handleRelayMessage socket message now w
           | FileAnswer \<Rightarrow> handleRelayMessage socket message now w
           | FileChunk \<Rightarrow> handleRelayMessage socket message now w
           | QualityChange \<Rightarrow> handleRelayMessage socket message now w
           | Chat \<Rightarrow> handleChat socket message now w
           | ParticipantUpdated \<Rightarrow> handleParticipantUpdate socket message now w
           | RaiseHand \<Rightarrow> handleRaiseHand socket now w
           | LowerHand \<Rightarrow> handleLowerHand socket now w
           | ModeratorActionT \<Rightarrow> handleModeratorAction socket message now w
           | RoomLocked \<Rightarrow> handleRoomLock socket now w
           | RoomUnlocked \<Rightarrow> handleRoomUnlock socket now w
           | AdmitUser \<Rightarrow> handleAdmitUser socket message now w
           | RejectUser \<Rightarrow> handleRejectUser socket message now w
           | _ \<Rightarrow> sendError socket ''Unknown message type'' None now w))"

section \<open>The blocks of handleJoin\<close>




section \<open>Observations\<close>

text \<open>The relay types of \<open>handleMessage\<close>'s switch.\<close>

definition is_relay :: "MessageType \<Rightarrow> bool" where
  "is_relay t = (t = Offer \<or> t = Answer \<or> t = IceCandidate \<or> t = FileOffer \<or>
                 t = FileAnswer \<or> t = FileChunk \<or> t = QualityChange)"

text \<open>The frames written between two states, oldest first.\<close>

definition emitted :: "World \<Rightarrow> World \<Rightarrow> (sock \<times> Frame) list" where
  "emitted w w' = drop (length (outbox w)) (outbox w')"

text \<open>
  The state after the messages \<open>ms\<close> have been written to socket \<open>s\<close> and nothing else
  has happened.
\<close>

definition answered :: "World \<Rightarrow> sock \<Rightarrow> Message list \<Rightarrow> World" where
  "answered w s ms = w\<lparr>outbox := outbox w @ map (\<lambda>m. (s, Send m)) ms\<rparr>"

text \<open>The \<open>code\<close> of an error envelope, and the frames that carry \<open>ROOM_NOT_FOUND\<close>.\<close>

definition frame_code :: "Frame \<Rightarrow> string option" where
  "frame_code f =
     (case f of Send m \<Rightarrow> (if m_type m = ErrorT then m_code m else None) | Close \<Rightarrow> None)"

definition not_found_frames :: "World \<Rightarrow> (sock \<times> Frame) list" where
  "not_found_frames w = filter (\<lambda>(s, f). frame_code f = Some ''ROOM_NOT_FOUND'') (outbox w)"

text \<open>\<open>this.rooms.get(roomId)?.participants.get(participantId)\<close>.\<close>

definition lookup_participant :: "World \<Rightarrow> string \<Rightarrow> string \<Rightarrow> addr option" where
  "lookup_participant w roomId participantId =
     (case getRoom w roomId of
        None \<Rightarrow> None
      | Some room \<Rightarrow> map_of (r_participants room) participantId)"

text \<open>\<open>this.rooms.get(roomId)?.waitingRoom.get(participantId)\<close>.\<close>

definition lookup_waiting :: "World \<Rightarrow> string \<Rightarrow> string \<Rightarrow> WaitingParticipant option" where
  "lookup_waiting w roomId participantId =
     (case getRoom w roomId of
        None \<Rightarrow> None
      | Some room \<Rightarrow> map_of (r_waitingRoom room) participantId)"

text \<open>The ids in a room's two maps, in insertion order.\<close>

definition participant_ids :: "World \<Rightarrow> string \<Rightarrow> string list" where
  "participant_ids w roomId = map (\<lambda>a. p_id (heap w a)) (getParticipants w roomId)"

definition waiting_ids :: "World \<Rightarrow> string \<Rightarrow> string list" where
  "waiting_ids w roomId = map w_id (getWaitingParticipants w roomId)"

section \<open>Sequences of RoomManager operations\<close>

text \<open>
  The state-changing methods of \<open>RoomManager\<close> as operations. \<open>AddParticipant\<close>
  carries the fields of the object literal that the caller builds; the object is
  created and then passed to \<open>addParticipant\<close>, as both call sites in the signaling
  server and the tests do.
\<close>

datatype RegistryOp =
    CreateRoom string "RoomConfig option" int
  | PreCreateRoom "string option" "string option" "Number option" string string int
  | GetOrCreateRoom string "RoomConfig option" int
  | AddToWaitingRoom string WaitingParticipant int
  | AdmitFromWaitingRoom string string
  | RejectFromWaitingRoom string string
  | AddParticipant string Participant bool int
  | RemoveParticipant string string
  | UpdateParticipant string string ParticipantPatch
  | LockRoom string
  | UnlockRoom string
  | Broadcast string Message "string option"
  | SendTo string string Message
  | CleanupAbandonedRooms int int
  | KickParticipant string string

fun registry_step :: "RegistryOp \<Rightarrow> World \<Rightarrow> World" where
  "registry_step (CreateRoom roomId config now) w = snd (createRoom roomId config now w)"
| "registry_step (PreCreateRoom optRoomId optPassword optMax genId token now) w =
     snd (preCreateRoom optRoomId optPassword optMax genId token now w)"
| "registry_step (GetOrCreateRoom roomId config now) w = snd (getOrCreateRoom roomId config now w)"
| "registry_step (AddToWaitingRoom roomId participant now) w =
     snd (addToWaitingRoom roomId participant now w)"
| "registry_step (AdmitFromWaitingRoom roomId participantId) w =
     snd (admitFromWaitingRoom roomId participantId w)"
| "registry_step (RejectFromWaitingRoom roomId participantId) w =
     snd (rejectFromWaitingRoom roomId participantId w)"
| "registry_step (AddParticipant roomId p isHost now) w =
     snd (addParticipant roomId (fst (new_participant p w)) isHost now (snd (new_participant p w)))"
| "registry_step (RemoveParticipant roomId participantId) w =
     removeParticipant roomId participantId w"
| "registry_step (UpdateParticipant roomId participantId updates) w =
     updateParticipant roomId participantId updates w"
| "registry_step (LockRoom roomId) w = lockRoom roomId w"
| "registry_step (UnlockRoom roomId) w = unlockRoom roomId w"
| "registry_step (Broadcast roomId message excludeId) w = broadcast roomId message excludeId w"
| "registry_step (SendTo participantId roomId message) w = sendTo participantId roomId message w"
| "registry_step (CleanupAbandonedRooms maxAgeMs now) w =
     snd (cleanupAbandonedRooms maxAgeMs now w)"
| "registry_step (KickParticipant roomId participantId) w =
     snd (kickParticipant roomId participantId w)"

fun registry_run :: "RegistryOp list \<Rightarrow> World \<Rightarrow> World" where
  "registry_run [] w = w"
| "registry_run (op # ops) w = registry_run ops (registry_step op w)"

subsection \<open>Capacity\<close>

text \<open>
  \<open>size_le k n\<close> is \<open>size <= n\<close>, the bound \<open>|participants| \<le> maxParticipants\<close> read as
  JavaScript reads it. \<open>capacity_respected\<close> says that every room of the table is within
  it.
\<close>

definition size_le :: "nat \<Rightarrow> Number \<Rightarrow> bool" where
  "size_le k n =
     (case n of Finite q \<Rightarrow> of_nat k \<le> q | NaN \<Rightarrow> False
      | PosInfinity \<Rightarrow> True | NegInfinity \<Rightarrow> False)"

definition cap_ok :: "string \<times> Room \<Rightarrow> bool" where
  "cap_ok = (\<lambda>(k, room). size_le (length (r_participants room)) (r_maxParticipants room))"

definition capacity_respected :: "World \<Rightarrow> bool" where
  "capacity_respected w = list_all cap_ok (rooms w)"

text \<open>A cap that is a count: a whole number that is not negative, or \<open>Infinity\<close>.\<close>

definition whole_cap :: "Number \<Rightarrow> bool" where
  "whole_cap n =
     (case n of Finite q \<Rightarrow> 0 \<le> q \<and> of_int \<lfloor>q\<rfloor> = q | NaN \<Rightarrow> False
      | PosInfinity \<Rightarrow> True | NegInfinity \<Rightarrow> False)"

text \<open>Every room whose cap is a count is within it.\<close>

definition whole_caps_respected :: "World \<Rightarrow> bool" where
  "whole_caps_respected w =
     list_all (\<lambda>(k, room). whole_cap (r_maxParticipants room) \<longrightarrow> cap_ok (k, room)) (rooms w)"

text \<open>
  The room is empty, or it was not at its cap with one participant less: the test
  \<open>size >= maxParticipants\<close> that \<open>addParticipant\<close> makes was false for the participant
  added last.
\<close>

definition below_cap :: "string \<times> Room \<Rightarrow> bool" where
  "below_cap = (\<lambda>(k, room).
     r_participants room = [] \<or>
     \<not> size_ge (length (r_participants room) - 1) (r_maxParticipants room))"

definition admitted_below_cap :: "World \<Rightarrow> bool" where
  "admitted_below_cap w = list_all below_cap (rooms w)"

subsection \<open>Host\<close>

definition room_has_host :: "(addr \<Rightarrow> Participant) \<Rightarrow> Room \<Rightarrow> bool" where
  "room_has_host h room =
     (case r_hostId room of
        None \<Rightarrow> False
      | Some hostId \<Rightarrow>
          (case map_of (r_participants room) hostId of
             None \<Rightarrow> False
           | Some a \<Rightarrow> p_id (h a) = hostId \<and> p_isModerator (h a)))"

definition host_exists :: "World \<Rightarrow> bool" where
  "host_exists w =
     list_all (\<lambda>(k, room). r_participants room = [] \<or> room_has_host (heap w) room) (rooms w)"

text \<open>
  The room's \<open>hostId\<close>; and: \<open>participantId\<close> is the room's \<open>hostId\<close>, the room's
  \<open>participants\<close> holds an object under it, that object's \<open>id\<close> is \<open>participantId\<close> and
  its \<open>isModerator\<close> is true.
\<close>

definition host_of :: "World \<Rightarrow> string \<Rightarrow> string option" where
  "host_of w roomId = (case getRoom w roomId of None \<Rightarrow> None | Some room \<Rightarrow> r_hostId room)"

definition is_host :: "World \<Rightarrow> string \<Rightarrow> string \<Rightarrow> bool" where
  "is_host w roomId participantId =
     (host_of w roomId = Some participantId \<and>
      (case lookup_participant w roomId participantId of
         None \<Rightarrow> False
       | Some a \<Rightarrow> p_id (heap w a) = participantId \<and> p_isModerator (heap w a)))"

text \<open>What \<open>addParticipant\<close> returns in the operation \<open>AddParticipant\<close>.\<close>

definition add_succeeds :: "World \<Rightarrow> string \<Rightarrow> Participant \<Rightarrow> bool \<Rightarrow> int \<Rightarrow> bool" where
  "add_succeeds w roomId p isHost now =
     fst (addParticipant roomId (fst (new_participant p w)) isHost now
            (snd (new_participant p w)))"

text \<open>
  Every participant entry of every room refers to an object that exists and whose
  \<open>id\<close> is the entry's key.
\<close>

definition room_refs_ok :: "(addr \<Rightarrow> Participant) \<Rightarrow> addr \<Rightarrow> Room \<Rightarrow> bool" where
  "room_refs_ok h n room =
     list_all (\<lambda>(pid, a). a < n \<and> p_id (h a) = pid) (r_participants room)"

definition refs_ok :: "World \<Rightarrow> bool" where
  "refs_ok w = list_all (\<lambda>(k, room). room_refs_ok (heap w) (nextAddr w) room) (rooms w)"

text \<open>Both together, as a property of the object store and the room table.\<close>

definition room_inv :: "(addr \<Rightarrow> Participant) \<Rightarrow> addr \<Rightarrow> string \<times> Room \<Rightarrow> bool" where
  "room_inv h n = (\<lambda>(k, room).
     room_refs_ok h n room \<and> (r_participants room = [] \<or> room_has_host h room))"

definition reg_inv :: "World \<Rightarrow> bool" where
  "reg_inv w = list_all (room_inv (heap w) (nextAddr w)) (rooms w)"

text \<open>
  The store \<open>h'\<close> with \<open>n'\<close> objects extends the store \<open>h\<close> with \<open>n\<close> objects: the
  objects of \<open>h\<close> are still there, with their ids, and none has lost \<open>isModerator\<close>.
\<close>

definition store_extends ::
  "(addr \<Rightarrow> Participant) \<Rightarrow> addr \<Rightarrow> (addr \<Rightarrow> Participant) \<Rightarrow> addr \<Rightarrow> bool" where
  "store_extends h n h' n' =
     (n \<le> n' \<and>
      (\<forall>a<n. p_id (h' a) = p_id (h a) \<and> (p_isModerator (h a) \<longrightarrow> p_isModerator (h' a))))"

text \<open>No room has a participant: the state a \<open>RoomManager\<close> is constructed in.\<close>

definition no_participants :: "World \<Rightarrow> bool" where
  "no_participants w = list_all (\<lambda>(k, room). r_participants room = []) (rooms w)"

text \<open>
  The operation neither re-uses, for a new participant, an id that the room already
  holds, nor patches a participant's \<open>id\<close>, nor patches \<open>isModerator\<close> to \<open>false\<close>.
\<close>

fun host_safe :: "World \<Rightarrow> RegistryOp \<Rightarrow> bool" where
  "host_safe w (AddParticipant roomId p isHost now) =
     (case getRoom w roomId of
        None \<Rightarrow> True
      | Some room \<Rightarrow> map_of (r_participants room) (p_id p) = None)"
| "host_safe w (UpdateParticipant roomId participantId updates) =
     (u_id updates = None \<and> u_isModerator updates \<noteq> Some False)"
| "host_safe w _ = True"

fun host_safe_run :: "World \<Rightarrow> RegistryOp list \<Rightarrow> bool" where
  "host_safe_run w [] = True"
| "host_safe_run w (op # ops) = (host_safe w op \<and> host_safe_run (registry_step op w) ops)"

subsection \<open>Empty ad-hoc rooms\<close>

definition not_ghost :: "string \<times> Room \<Rightarrow> bool" where
  "not_ghost = (\<lambda>(k, room). r_isPreCreated room \<or> r_participants room \<noteq> [])"

definition no_ghost_rooms :: "World \<Rightarrow> bool" where
  "no_ghost_rooms w = list_all not_ghost (rooms w)"

text \<open>
  The operations that install an empty room that is not pre-created: \<open>createRoom\<close>,
  and \<open>getOrCreateRoom\<close> and \<open>addToWaitingRoom\<close> on an id the table does not have.
\<close>

fun installs_empty_room :: "World \<Rightarrow> RegistryOp \<Rightarrow> bool" where
  "installs_empty_room w (CreateRoom roomId config now) = True"
| "installs_empty_room w (GetOrCreateRoom roomId config now) = (getRoom w roomId = None)"
| "installs_empty_room w (AddToWaitingRoom roomId participant now) = (getRoom w roomId = None)"
| "installs_empty_room w _ = False"

fun installs_none :: "World \<Rightarrow> RegistryOp list \<Rightarrow> bool" where
  "installs_none w [] = True"
| "installs_none w (op # ops) =
     (\<not> installs_empty_room w op \<and> installs_none (registry_step op w) ops)"

section \<open>Example runs\<close>

text \<open>
  A server just started, with no latent-room file: no room, no socket, no object.
\<close>

definition blank :: Participant where
  "blank = \<lparr> p_id = [], p_name = None, p_socket = 0, p_roomId = [], p_isModerator = False,
             p_isMuted = False, p_isVideoOff = False, p_isHandRaised = False, p_joinedAt = 0 \<rparr>"

definition fresh_world :: World where
  "fresh_world = \<lparr> rooms = [], peakParticipants = 0, maxLatentRooms = 10,
                   latentRoomMaxAgeMs = 86400000, persisted = [],
                   heap = (\<lambda>a. blank), nextAddr = 0, readyState = (\<lambda>s. 0), outbox = [],
                   participants = (\<lambda>s. None), waitingParticipants = (\<lambda>s. None) \<rparr>"

definition joinMessage :: "string \<Rightarrow> string \<Rightarrow> Message" where
  "joinMessage roomId name = (envelope Join roomId [] 0)\<lparr>m_name := Some name\<rparr>"

text \<open>
  Alice opens socket 0 and joins room \<open>ABC123\<close> as host (she is given id \<open>P1\<close>); Bob
  opens socket 1 and joins the same room (\<open>P2\<close>).
\<close>

definition alice_and_bob :: World where
  "alice_and_bob =
     handleMessage 1 (Some (joinMessage ''ABC123'' ''Bob'')) ''P2'' 2
       (handleConnection 1
          (handleMessage 0 (Some ((joinMessage ''ABC123'' ''Alice'')\<lparr>m_isHost := Some True\<rparr>))
             ''P1'' 1
             (handleConnection 0 fresh_world)))"

text \<open>
  A latent room \<open>PRE777\<close> for two is pre-created. The host joins it on socket 0 with the
  creator token and locks it. Dan (socket 1, id \<open>P7\<close>) and Eve (socket 2, id \<open>P8\<close>)
  join and are put in the waiting room. The host admits Dan: the room is now full, and
  Eve is still waiting.
\<close>

definition eve_waiting :: World where
  "eve_waiting =
     handleMessage 0 (Some ((envelope AdmitUser ''PRE777'' [] 0)\<lparr>m_targetId := Some ''P7''\<rparr>))
       [] 6
       (handleMessage 2 (Some (joinMessage ''PRE777'' ''Eve'')) ''P8'' 5
          (handleConnection 2
             (handleMessage 1 (Some (joinMessage ''PRE777'' ''Dan'')) ''P7'' 4
                (handleConnection 1
                   (handleMessage 0 (Some (envelope RoomLocked ''PRE777'' [] 0)) [] 3
                      (handleMessage 0
                         (Some ((joinMessage ''PRE777'' ''Host'')
                                  \<lparr>m_creatorToken := Some ''tk-abc''\<rparr>)) ''P1'' 2
                         (handleConnection 0
                            (snd (preCreateRoom (Some ''PRE777'') None (Some (Finite 2)) []
                                    ''tk-abc'' 1
                                    fresh_world)))))))))"

definition admit_eve :: Message where
  "admit_eve = (envelope AdmitUser ''PRE777'' [] 0)\<lparr>m_targetId := Some ''P8''\<rparr>"


text \<open>
  Operations on the room table alone: a latent room for one is pre-created, Alice is
  added as host, Bob is turned away because the room is full, Carol waits, Alice is
  removed and Carol gives up.
\<close>

definition person :: "string \<Rightarrow> string \<Rightarrow> sock \<Rightarrow> string \<Rightarrow> Participant" where
  "person pid name socket roomId =
     \<lparr> p_id = pid, p_name = Some name, p_socket = socket, p_roomId = roomId,
       p_isModerator = False, p_isMuted = False, p_isVideoOff = False,
       p_isHandRaised = False, p_joinedAt = 0 \<rparr>"

definition latent_room_ops :: "RegistryOp list" where
  "latent_room_ops =
     [PreCreateRoom (Some ''PRE777'') None (Some (Finite 1)) [] ''tk-abc'' 1,
      AddParticipant ''PRE777'' (person ''P1'' ''Alice'' 0 ''PRE777'') True 2,
      AddParticipant ''PRE777'' (person ''P2'' ''Bob'' 1 ''PRE777'') False 3,
      AddToWaitingRoom ''PRE777''
        \<lparr> w_id = ''P3'', w_name = Some ''Carol'', w_socket = 2, w_requestedAt = 4 \<rparr> 4,
      RemoveParticipant ''PRE777'' ''P1'',
      RejectFromWaitingRoom ''PRE777'' ''P3'']"

text \<open>
  A latent room is pre-created with \<open>maxParticipants = 1.5\<close> and Alice and Bob are added
  to it; another is pre-created with \<open>maxParticipants = -1\<close>.
\<close>

definition fractional_cap_ops :: "RegistryOp list" where
  "fractional_cap_ops =
     [PreCreateRoom (Some ''FRA015'') None (Some (Finite (3 / 2))) [] ''tk-fra'' 1,
      AddParticipant ''FRA015'' (person ''P1'' ''Alice'' 0 ''FRA015'') True 2,
      AddParticipant ''FRA015'' (person ''P2'' ''Bob'' 1 ''FRA015'') False 3]"

definition negative_cap_ops :: "RegistryOp list" where
  "negative_cap_ops =
     [PreCreateRoom (Some ''NEG001'') None (Some (Finite (- 1))) [] ''tk-neg'' 1]"

text \<open>Bob's offer to Alice, with a forged \<open>participantId\<close>.\<close>

definition bobs_offer :: Message where
  "bobs_offer = (envelope Offer ''ABC123'' ''P1'' 0)\<lparr>m_targetId := Some ''P1'', m_rest := ''sdp''\<rparr>"

text \<open>Bob's offer to himself.\<close>

definition bobs_echo :: Message where
  "bobs_echo = (envelope Offer ''ABC123'' ''P2'' 0)\<lparr>m_targetId := Some ''P2'', m_rest := ''sdp''\<rparr>"

text \<open>A socket that has connected and not joined.\<close>

definition lonely_socket :: World where
  "lonely_socket = handleConnection 0 fresh_world"


text \<open>Alice joins a room; then her \<open>isModerator\<close> is patched away.\<close>

definition demote_host_ops :: "RegistryOp list" where
  "demote_host_ops =
     [AddParticipant ''ABC123'' (person ''P1'' ''Alice'' 0 ''ABC123'') False 1,
      UpdateParticipant ''ABC123'' ''P1'' (no_patch\<lparr>u_isModerator := Some False\<rparr>)]"

text \<open>Alice joins a room; then a second object with her id is added to it.\<close>

definition same_id_ops :: "RegistryOp list" where
  "same_id_ops =
     [AddParticipant ''ABC123'' (person ''P1'' ''Alice'' 0 ''ABC123'') False 1,
      AddParticipant ''ABC123'' (person ''P1'' ''Mallory'' 1 ''ABC123'') False 2]"

text \<open>Alice, Bob and Carol join a room; Carol is muted, Alice leaves and Bob is kicked.\<close>

definition host_leaves_ops :: "RegistryOp list" where
  "host_leaves_ops =
     [AddParticipant ''ABC123'' (person ''P1'' ''Alice'' 0 ''ABC123'') True 1,
      AddParticipant ''ABC123'' (person ''P2'' ''Bob'' 1 ''ABC123'') False 2,
      AddParticipant ''ABC123'' (person ''P3'' ''Carol'' 2 ''ABC123'') False 3,
      UpdateParticipant ''ABC123'' ''P3'' (no_patch\<lparr>u_isMuted := Some True\<rparr>),
      RemoveParticipant ''ABC123'' ''P1'',
      KickParticipant ''ABC123'' ''P2'']"

text \<open>The same, and then Carol leaves too.\<close>

definition everyone_leaves_ops :: "RegistryOp list" where
  "everyone_leaves_ops = host_leaves_ops @ [RemoveParticipant ''ABC123'' ''P3'']"


text \<open>
  Eve as she waits; a room with the password \<open>hunter2\<close>; and a room created with the
  empty string as its password.
\<close>

definition eve :: WaitingParticipant where
  "eve = \<lparr> w_id = ''P8'', w_name = Some ''Eve'', w_socket = 2, w_requestedAt = 5 \<rparr>"

definition secret_room :: World where
  "secret_room =
     snd (createRoom ''SEC999'' (Some \<lparr> c_password = Some ''hunter2'', c_maxParticipants = None \<rparr>)
            1 fresh_world)"

definition empty_password_room :: World where
  "empty_password_room =
     snd (createRoom ''EMP000'' (Some \<lparr> c_password = Some [], c_maxParticipants = None \<rparr>)
            1 fresh_world)"


section \<open>Lemmas on association lists and on the frame of the operations\<close>

lemma list_all_update:
  "list_all P al \<Longrightarrow> P (k, v) \<Longrightarrow> list_all P (AList.update k v al)"
  by (induction al) auto

lemma list_all_delete: "list_all P al \<Longrightarrow> list_all P (AList.delete k al)"
  by (simp add: AList.delete_eq list_all_iff)

lemma list_all_map_of: "list_all P al \<Longrightarrow> map_of al k = Some v \<Longrightarrow> P (k, v)"
  by (auto simp: list_all_iff dest: map_of_SomeD)

lemma length_update_le: "length (AList.update k v al) \<le> Suc (length al)"
  by (induction al) auto

lemma rooms_send_each [simp]: "rooms (send_each ps m w) = rooms w"
  by (induction ps arbitrary: w) (auto simp: socket_send_def)

lemma rooms_broadcast [simp]: "rooms (broadcast r m e w) = rooms w"
  by (simp add: broadcast_def)

lemma rooms_sendTo [simp]: "rooms (sendTo p r m w) = rooms w"
  by (simp add: sendTo_def socket_send_def split: option.splits)

lemma rooms_persist [simp]: "rooms (persistPreCreatedRooms w) = rooms w"
  by (simp add: persistPreCreatedRooms_def)

lemma rooms_socket_close [simp]: "rooms (socket_close s w) = rooms w"
  by (simp add: socket_close_def)

lemma rooms_new_participant [simp]: "rooms (snd (new_participant p w)) = rooms w"
  by (simp add: new_participant_def)

lemma removeParticipant_none:
  "getRoom w r = None \<Longrightarrow> removeParticipant r p w = w"
  by (simp add: removeParticipant_def)

lemma removeParticipant_last:
  assumes "getRoom w r = Some room" and "AList.delete p (r_participants room) = []"
  shows "removeParticipant r p w =
           (if r_isPreCreated room then rooms_set r (room\<lparr>r_participants := []\<rparr>) w
            else w\<lparr>rooms := AList.delete r (rooms w)\<rparr>)"
  using assms by (simp add: removeParticipant_def Let_def)

lemma removeParticipant_host:
  assumes "getRoom w r = Some room"
    and "AList.delete p (r_participants room) = (k, newHost) # rest"
    and "r_hostId room = Some p"
  shows "removeParticipant r p w =
           rooms_set r
             (room\<lparr>r_participants := (k, newHost) # rest,
                   r_hostId := Some (p_id (heap w newHost))\<rparr>)
             (w\<lparr>heap := (heap w)(newHost := (heap w newHost)\<lparr>p_isModerator := True\<rparr>)\<rparr>)"
  using assms by (simp add: removeParticipant_def Let_def)

lemma removeParticipant_other:
  assumes "getRoom w r = Some room"
    and "AList.delete p (r_participants room) = (k, a) # rest"
    and "r_hostId room \<noteq> Some p"
  shows "removeParticipant r p w = rooms_set r (room\<lparr>r_participants := (k, a) # rest\<rparr>) w"
  using assms by (simp add: removeParticipant_def Let_def)

section \<open>Capacity\<close>

lemma size_ge_mono: "size_ge j n \<Longrightarrow> j \<le> k \<Longrightarrow> size_ge k n"
proof (cases n)
  case (Finite q)
  assume "size_ge j n" and "j \<le> k"
  then have "q \<le> of_nat j" and "(of_nat j :: rat) \<le> of_nat k"
    using Finite by (simp_all add: size_ge_def)
  then show ?thesis using Finite by (simp add: size_ge_def)
qed (simp_all add: size_ge_def)

lemma below_cap_shrink:
  assumes "below_cap (r, room)" and "length ps \<le> length (r_participants room)"
  shows "below_cap (r, room\<lparr>r_participants := ps\<rparr>)"
proof (cases "ps = []")
  case True
  then show ?thesis by (simp add: below_cap_def)
next
  case False
  then have ne: "r_participants room \<noteq> []" using assms(2) by auto
  with assms(1) have "\<not> size_ge (length (r_participants room) - 1) (r_maxParticipants room)"
    by (simp add: below_cap_def)
  moreover have "length ps - 1 \<le> length (r_participants room) - 1"
    using assms(2) by simp
  ultimately have "\<not> size_ge (length ps - 1) (r_maxParticipants room)"
    using size_ge_mono by blast
  then show ?thesis by (simp add: below_cap_def)
qed

lemma below_cap_grow:
  assumes "\<not> size_ge (length (r_participants room)) (r_maxParticipants room)"
  shows "below_cap (r, room\<lparr>r_participants := AList.update k v (r_participants room)\<rparr>)"
proof -
  have "length (AList.update k v (r_participants room)) - 1 \<le> length (r_participants room)"
    using length_update_le[of k v "r_participants room"] by simp
  with assms
  have "\<not> size_ge (length (AList.update k v (r_participants room)) - 1) (r_maxParticipants room)"
    using size_ge_mono by blast
  then show ?thesis by (simp add: below_cap_def)
qed

lemma below_cap_upd [simp]:
  "below_cap (r, room\<lparr>r_waitingRoom := x\<rparr>) = below_cap (r, room)"
  "below_cap (r, room\<lparr>r_isLocked := b\<rparr>) = below_cap (r, room)"
  "below_cap (r, room\<lparr>r_hostId := h\<rparr>) = below_cap (r, room)"
  by (simp_all add: below_cap_def)

lemma below_cap_empty: "r_participants room = [] \<Longrightarrow> below_cap (r, room)"
  by (simp add: below_cap_def)

lemma below_cap_within:
  assumes "below_cap (r, room)" and "whole_cap (r_maxParticipants room)"
  shows "cap_ok (r, room)"
proof (cases "r_maxParticipants room")
  case (Finite q)
  define z where "z = \<lfloor>q\<rfloor>"
  from assms(2) Finite have q: "q = of_int z" and "0 \<le> q"
    by (auto simp add: whole_cap_def z_def)
  then have z: "0 \<le> z" by simp
  let ?n = "length (r_participants room)"
  show ?thesis
  proof (cases "r_participants room = []")
    case True
    then show ?thesis using Finite q z by (simp add: cap_ok_def size_le_def)
  next
    case False
    then have pos: "0 < ?n" by simp
    from False assms(1) Finite q
    have "\<not> (of_int z :: rat) \<le> of_int (int (?n - 1))"
      by (simp add: below_cap_def size_ge_def)
    then have "int (?n - 1) < z" by (simp only: of_int_le_iff not_le)
    with pos have "int ?n \<le> z" by linarith
    then have "(of_int (int ?n) :: rat) \<le> of_int z" by (simp only: of_int_le_iff)
    then show ?thesis using Finite q by (simp add: cap_ok_def size_le_def)
  qed
next
  case NaN
  then show ?thesis using assms(2) by (simp add: whole_cap_def)
next
  case PosInfinity
  then show ?thesis by (simp add: cap_ok_def size_le_def)
next
  case NegInfinity
  then show ?thesis using assms(2) by (simp add: whole_cap_def)
qed

lemma adm_rooms_set:
  "admitted_below_cap w \<Longrightarrow> below_cap (r, room) \<Longrightarrow> admitted_below_cap (rooms_set r room w)"
  by (simp add: admitted_below_cap_def rooms_set_def list_all_update)

lemma adm_getRoom: "admitted_below_cap w \<Longrightarrow> getRoom w r = Some room \<Longrightarrow> below_cap (r, room)"
  by (simp add: admitted_below_cap_def getRoom_def list_all_map_of)

lemma adm_frame [simp]:
  "admitted_below_cap (persistPreCreatedRooms w) = admitted_below_cap w"
  "admitted_below_cap (socket_close s w) = admitted_below_cap w"
  "admitted_below_cap (broadcast r m e w) = admitted_below_cap w"
  "admitted_below_cap (sendTo p r m w) = admitted_below_cap w"
  "admitted_below_cap (snd (new_participant q w)) = admitted_below_cap w"
  "admitted_below_cap (w\<lparr>heap := h\<rparr>) = admitted_below_cap w"
  "admitted_below_cap (w\<lparr>peakParticipants := n\<rparr>) = admitted_below_cap w"
  by (simp_all add: admitted_below_cap_def)

lemma adm_createRoom:
  assumes "admitted_below_cap w"
  shows "admitted_below_cap (snd (createRoom r config now w))"
    and "below_cap (r, fst (createRoom r config now w))"
  using assms by (auto simp: createRoom_def Let_def intro!: adm_rooms_set below_cap_empty)

lemma adm_getOrCreateRoom:
  assumes "admitted_below_cap w"
  shows "admitted_below_cap (snd (getOrCreateRoom r config now w))"
    and "below_cap (r, fst (getOrCreateRoom r config now w))"
  using assms adm_createRoom[OF assms] adm_getRoom[of w r]
  by (auto simp: getOrCreateRoom_def split: option.splits)

lemma adm_preCreateRoom:
  assumes "admitted_below_cap w"
  shows "admitted_below_cap (snd (preCreateRoom i p optMax g t now w))"
  using assms
  by (auto simp: preCreateRoom_def Let_def intro!: adm_rooms_set below_cap_empty)

lemma adm_addToWaitingRoom:
  assumes "admitted_below_cap w"
  shows "admitted_below_cap (snd (addToWaitingRoom r p now w))"
proof -
  have a: "admitted_below_cap (snd (getOrCreateRoom r None now w))"
    and b: "below_cap (r, fst (getOrCreateRoom r None now w))"
    using adm_getOrCreateRoom[OF assms, of r None now] by simp_all
  show ?thesis using a b
    by (auto simp: addToWaitingRoom_def Let_def intro!: adm_rooms_set)
qed

lemma adm_admit:
  assumes "admitted_below_cap w"
  shows "admitted_below_cap (snd (admitFromWaitingRoom r p w))"
  using assms adm_getRoom[OF assms, of r]
  by (auto simp: admitFromWaitingRoom_def intro!: adm_rooms_set split: option.splits)

lemma adm_reject:
  assumes "admitted_below_cap w"
  shows "admitted_below_cap (snd (rejectFromWaitingRoom r p w))"
  using assms adm_getRoom[OF assms, of r]
  by (auto simp: rejectFromWaitingRoom_def intro!: adm_rooms_set split: option.splits)

lemma adm_addParticipant:
  assumes "admitted_below_cap w"
  shows "admitted_below_cap (snd (addParticipant r a h now w))"
proof -
  let ?room = "fst (getOrCreateRoom r None now w)"
  let ?w1 = "snd (getOrCreateRoom r None now w)"
  have a: "admitted_below_cap ?w1"
    using adm_getOrCreateRoom[OF assms, of r None now] by simp
  have c: "below_cap (r, ?room\<lparr>r_hostId := x,
                                r_participants := AList.update k v (r_participants ?room)\<rparr>)"
    if "\<not> size_ge (length (r_participants ?room)) (r_maxParticipants ?room)" for k v x
    using below_cap_grow[OF that, of r k v] by (simp add: below_cap_def)
  have d: "below_cap (r, ?room\<lparr>r_participants := AList.update k v (r_participants ?room)\<rparr>)"
    if "\<not> size_ge (length (r_participants ?room)) (r_maxParticipants ?room)" for k v
    using below_cap_grow[OF that, of r k v] .
  show ?thesis using a c d
    by (auto simp: addParticipant_def Let_def intro!: adm_rooms_set)
qed

lemma adm_removeParticipant:
  assumes "admitted_below_cap w"
  shows "admitted_below_cap (removeParticipant r p w)"
proof (cases "getRoom w r")
  case None
  then show ?thesis using assms by (simp add: removeParticipant_none)
next
  case (Some room)
  have b: "below_cap (r, room)" using adm_getRoom[OF assms Some] .
  have c: "below_cap (r, room\<lparr>r_participants := AList.delete p (r_participants room)\<rparr>)"
    using below_cap_shrink[OF b length_delete_le] .
  show ?thesis
  proof (cases "AList.delete p (r_participants room)")
    case Nil
    have "admitted_below_cap (w\<lparr>rooms := AList.delete r (rooms w)\<rparr>)"
      using assms by (simp add: admitted_below_cap_def list_all_delete)
    moreover have "admitted_below_cap (rooms_set r (room\<lparr>r_participants := []\<rparr>) w)"
      using assms by (intro adm_rooms_set below_cap_empty) simp_all
    ultimately show ?thesis by (simp add: removeParticipant_last[OF Some Nil])
  next
    case (Cons e rest)
    obtain k a where e: "e = (k, a)" by (cases e)
    have ok: "below_cap (r, room\<lparr>r_participants := (k, a) # rest\<rparr>)"
      using c Cons e by simp
    show ?thesis
    proof (cases "r_hostId room = Some p")
      case True
      have "below_cap (r, room\<lparr>r_participants := (k, a) # rest, r_hostId := h\<rparr>)" for h
        using ok by (simp add: below_cap_def)
      then show ?thesis
        unfolding removeParticipant_host[OF Some Cons[unfolded e] True]
        using assms by (intro adm_rooms_set) simp_all
    next
      case False
      show ?thesis
        unfolding removeParticipant_other[OF Some Cons[unfolded e] False]
        using assms ok by (intro adm_rooms_set)
    qed
  qed
qed

lemma adm_step:
  assumes "admitted_below_cap w"
  shows "admitted_below_cap (registry_step op w)"
proof (cases op)
  case (CreateRoom r c n)
  then show ?thesis using assms by (simp add: adm_createRoom(1))
next
  case (PreCreateRoom i p m g t n)
  then show ?thesis using assms by (simp add: adm_preCreateRoom)
next
  case (GetOrCreateRoom r c n)
  then show ?thesis using assms by (simp add: adm_getOrCreateRoom(1))
next
  case (AddToWaitingRoom r p n)
  then show ?thesis using assms by (simp add: adm_addToWaitingRoom)
next
  case (AdmitFromWaitingRoom r p)
  then show ?thesis using assms by (simp add: adm_admit)
next
  case (RejectFromWaitingRoom r p)
  then show ?thesis using assms by (simp add: adm_reject)
next
  case (AddParticipant r p h n)
  then show ?thesis using assms by (simp add: adm_addParticipant)
next
  case (RemoveParticipant r p)
  then show ?thesis using assms by (simp add: adm_removeParticipant)
next
  case (UpdateParticipant r p u)
  then show ?thesis using assms by (simp add: updateParticipant_def split: option.splits)
next
  case (LockRoom r)
  then show ?thesis using assms adm_getRoom[OF assms, of r]
    by (auto simp: lockRoom_def intro!: adm_rooms_set split: option.splits)
next
  case (UnlockRoom r)
  then show ?thesis using assms adm_getRoom[OF assms, of r]
    by (auto simp: unlockRoom_def intro!: adm_rooms_set split: option.splits)
next
  case (Broadcast r m e)
  then show ?thesis using assms by simp
next
  case (SendTo p r m)
  then show ?thesis using assms by simp
next
  case (CleanupAbandonedRooms m n)
  then show ?thesis using assms
    by (auto simp: cleanupAbandonedRooms_def Let_def admitted_below_cap_def list_all_iff)
next
  case (KickParticipant r p)
  then show ?thesis using assms
    by (auto simp: kickParticipant_def Let_def adm_removeParticipant split: option.splits)
qed

lemma adm_run: "admitted_below_cap w \<Longrightarrow> admitted_below_cap (registry_run ops w)"
  by (induction ops arbitrary: w) (simp_all add: adm_step)

lemma adm_whole_caps: "admitted_below_cap w \<Longrightarrow> whole_caps_respected w"
  by (auto simp: admitted_below_cap_def whole_caps_respected_def list_all_iff
      intro: below_cap_within)


text \<open>
  Claim C2, as amended. Take any state in which every room is empty or was not at its
  cap when its last participant was added (a RoomManager as constructed has only empty
  rooms), and any sequence of RoomManager operations. Then after the sequence (and so
  after each of its operations) the same holds of every room, and every room whose
  \<open>maxParticipants\<close> is a count (a whole number that is not negative, or \<open>Infinity\<close>)
  holds at most \<open>maxParticipants\<close> participants: \<open>addParticipant\<close> refuses once the room
  is at its cap, whether it is called for a join or for an admission.
\<close>

theorem capacity_preserved:
  assumes "admitted_below_cap w"
  shows "admitted_below_cap (registry_run ops w) \<and> whole_caps_respected (registry_run ops w)"
  using adm_run[OF assms, of ops] by (simp add: adm_whole_caps)

theorem capacity_preserved_witness:
  "admitted_below_cap fresh_world \<and>
   admitted_below_cap (registry_run latent_room_ops fresh_world) \<and>
   whole_caps_respected (registry_run latent_room_ops fresh_world) \<and>
   whole_caps_respected (registry_run (take 3 latent_room_ops) fresh_world) \<and>
   map (\<lambda>(k, room). (k, r_maxParticipants room, map fst (r_participants room)))
     (rooms (registry_run (take 3 latent_room_ops) fresh_world)) =
     [(''PRE777'', Finite 1, [''P1''])]"
proof -
  have h1: "admitted_below_cap fresh_world" by code_simp
  have h2: "map (\<lambda>(k, room). (k, r_maxParticipants room, map fst (r_participants room)))
              (rooms (registry_run (take 3 latent_room_ops) fresh_world)) =
              [(''PRE777'', Finite 1, [''P1''])]" by code_simp
  show ?thesis
    using capacity_preserved[OF h1, of latent_room_ops]
      capacity_preserved[OF h1, of "take 3 latent_room_ops"] h1 h2
    by blast
qed

text \<open>
  Claim C2 as stated fails: nothing checks the configured cap (the REST endpoint passes
  the number through). A room pre-created with \<open>maxParticipants = 1.5\<close> takes a second
  participant, because \<open>1 >= 1.5\<close> is false; and a room pre-created with
  \<open>maxParticipants = -1\<close> has zero participants and a smaller cap.
\<close>

theorem capacity_counterexample:
  "map (\<lambda>(k, room). (k, r_maxParticipants room, map fst (r_participants room)))
     (rooms (registry_run fractional_cap_ops fresh_world)) =
     [(''FRA015'', Finite (3 / 2), [''P1'', ''P2''])] \<and>
   \<not> capacity_respected (registry_run fractional_cap_ops fresh_world) \<and>
   \<not> capacity_respected (registry_run negative_cap_ops fresh_world)"
  by code_simp

section \<open>Empty ad-hoc rooms\<close>

lemma ghost_frame [simp]:
  "no_ghost_rooms (persistPreCreatedRooms w) = no_ghost_rooms w"
  "no_ghost_rooms (socket_close s w) = no_ghost_rooms w"
  "no_ghost_rooms (broadcast r m e w) = no_ghost_rooms w"
  "no_ghost_rooms (sendTo p r m w) = no_ghost_rooms w"
  "no_ghost_rooms (snd (new_participant q w)) = no_ghost_rooms w"
  "no_ghost_rooms (w\<lparr>heap := h\<rparr>) = no_ghost_rooms w"
  "no_ghost_rooms (w\<lparr>peakParticipants := n\<rparr>) = no_ghost_rooms w"
  by (simp_all add: no_ghost_rooms_def)

lemma ghost_rooms_set:
  "no_ghost_rooms w \<Longrightarrow> not_ghost (r, room) \<Longrightarrow> no_ghost_rooms (rooms_set r room w)"
  by (simp add: no_ghost_rooms_def rooms_set_def list_all_update)

lemma ghost_getRoom: "no_ghost_rooms w \<Longrightarrow> getRoom w r = Some room \<Longrightarrow> not_ghost (r, room)"
  by (simp add: no_ghost_rooms_def getRoom_def list_all_map_of)

lemma rooms_set_twice [simp]: "rooms_set r x (rooms_set r y w) = rooms_set r x w"
  by (simp add: rooms_set_def)

lemma ghost_addParticipant:
  assumes "no_ghost_rooms w"
  shows "no_ghost_rooms (snd (addParticipant r a h now w))"
proof (cases "getRoom w r")
  case None
  then show ?thesis using assms
    by (simp add: addParticipant_def getOrCreateRoom_def createRoom_def Let_def not_ghost_def
        defaultMaxParticipants_def size_ge_def rooms_set_def no_ghost_rooms_def list_all_update)
next
  case (Some room)
  then show ?thesis using assms ghost_getRoom[OF assms Some]
    by (auto simp: addParticipant_def getOrCreateRoom_def Let_def not_ghost_def
        intro!: ghost_rooms_set)
qed

lemma ghost_removeParticipant:
  assumes "no_ghost_rooms w"
  shows "no_ghost_rooms (removeParticipant r p w)"
proof (cases "getRoom w r")
  case None
  then show ?thesis using assms by (simp add: removeParticipant_none)
next
  case (Some room)
  show ?thesis
  proof (cases "AList.delete p (r_participants room)")
    case Nil
    have "no_ghost_rooms (w\<lparr>rooms := AList.delete r (rooms w)\<rparr>)"
      using assms by (simp add: no_ghost_rooms_def list_all_delete)
    moreover have "r_isPreCreated room \<Longrightarrow>
        no_ghost_rooms (rooms_set r (room\<lparr>r_participants := []\<rparr>) w)"
      using assms by (intro ghost_rooms_set) (simp_all add: not_ghost_def)
    ultimately show ?thesis by (simp add: removeParticipant_last[OF Some Nil])
  next
    case (Cons e rest)
    obtain k a where e: "e = (k, a)" by (cases e)
    show ?thesis
    proof (cases "r_hostId room = Some p")
      case True
      show ?thesis
        unfolding removeParticipant_host[OF Some Cons[unfolded e] True]
        using assms by (intro ghost_rooms_set) (simp_all add: not_ghost_def)
    next
      case False
      show ?thesis
        unfolding removeParticipant_other[OF Some Cons[unfolded e] False]
        using assms by (intro ghost_rooms_set) (simp_all add: not_ghost_def)
    qed
  qed
qed

lemma ghost_step:
  assumes "no_ghost_rooms w" and "\<not> installs_empty_room w op"
  shows "no_ghost_rooms (registry_step op w)"
proof (cases op)
  case (CreateRoom r c n)
  then show ?thesis using assms by simp
next
  case (PreCreateRoom i p m g t n)
  then show ?thesis using assms
    by (auto simp: preCreateRoom_def Let_def not_ghost_def intro!: ghost_rooms_set)
next
  case (GetOrCreateRoom r c n)
  then show ?thesis using assms by (auto simp: getOrCreateRoom_def)
next
  case (AddToWaitingRoom r p n)
  then obtain room where "getRoom w r = Some room" using assms by auto
  then show ?thesis using AddToWaitingRoom assms ghost_getRoom[of w r room]
    by (auto simp: addToWaitingRoom_def getOrCreateRoom_def not_ghost_def Let_def
        intro!: ghost_rooms_set)
next
  case (AdmitFromWaitingRoom r p)
  then show ?thesis using assms ghost_getRoom[of w r]
    by (auto simp: admitFromWaitingRoom_def not_ghost_def intro!: ghost_rooms_set
        split: option.splits)
next
  case (RejectFromWaitingRoom r p)
  then show ?thesis using assms ghost_getRoom[of w r]
    by (auto simp: rejectFromWaitingRoom_def not_ghost_def intro!: ghost_rooms_set
        split: option.splits)
next
  case (AddParticipant r p h n)
  then show ?thesis using assms by (simp add: ghost_addParticipant)
next
  case (RemoveParticipant r p)
  then show ?thesis using assms by (simp add: ghost_removeParticipant)
next
  case (UpdateParticipant r p u)
  then show ?thesis using assms by (simp add: updateParticipant_def split: option.splits)
next
  case (LockRoom r)
  then show ?thesis using assms ghost_getRoom[of w r]
    by (auto simp: lockRoom_def not_ghost_def intro!: ghost_rooms_set split: option.splits)
next
  case (UnlockRoom r)
  then show ?thesis using assms ghost_getRoom[of w r]
    by (auto simp: unlockRoom_def not_ghost_def intro!: ghost_rooms_set split: option.splits)
next
  case (Broadcast r m e)
  then show ?thesis using assms by simp
next
  case (SendTo p r m)
  then show ?thesis using assms by simp
next
  case (CleanupAbandonedRooms m n)
  then show ?thesis using assms
    by (auto simp: cleanupAbandonedRooms_def Let_def no_ghost_rooms_def list_all_iff)
next
  case (KickParticipant r p)
  then show ?thesis using assms
    by (auto simp: kickParticipant_def Let_def ghost_removeParticipant split: option.splits)
qed


text \<open>
  Claim C4, as amended. Take any state without an empty ad-hoc room and any sequence of
  RoomManager operations none of which is a \<open>createRoom\<close>, a \<open>getOrCreateRoom\<close> of an
  unknown id or an \<open>addToWaitingRoom\<close> of an unknown id. Then no empty ad-hoc room
  exists after the sequence: \<open>removeParticipant\<close> (and \<open>kickParticipant\<close>) delete an
  ad-hoc room with its last participant, and \<open>addParticipant\<close> fills the room it creates.
  In the example run \<open>addParticipant\<close> creates the ad-hoc room \<open>ABC123\<close>, which is taken
  out of the table when its last participant leaves.
\<close>

theorem no_ghost_rooms_preserved:
  assumes "no_ghost_rooms w" and "installs_none w ops"
  shows "no_ghost_rooms (registry_run ops w)"
  using assms by (induction ops arbitrary: w) (simp_all add: ghost_step)

theorem no_ghost_rooms_preserved_witness:
  "no_ghost_rooms fresh_world \<and> installs_none fresh_world everyone_leaves_ops \<and>
   map (\<lambda>(k, room). (k, r_isPreCreated room, map fst (r_participants room)))
     (rooms (registry_run host_leaves_ops fresh_world)) = [(''ABC123'', False, [''P3''])] \<and>
   rooms (registry_run everyone_leaves_ops fresh_world) = [] \<and>
   no_ghost_rooms (registry_run everyone_leaves_ops fresh_world)"
proof -
  have h1: "no_ghost_rooms fresh_world" by code_simp
  have h2: "installs_none fresh_world everyone_leaves_ops" by code_simp
  have h3: "map (\<lambda>(k, room). (k, r_isPreCreated room, map fst (r_participants room)))
              (rooms (registry_run host_leaves_ops fresh_world)) = [(''ABC123'', False, [''P3''])]"
    by code_simp
  have h4: "rooms (registry_run everyone_leaves_ops fresh_world) = []" by code_simp
  show ?thesis by (intro conjI h1 h2 h3 h4 no_ghost_rooms_preserved[OF h1 h2])
qed

text \<open>
  Claim C4 as stated fails: \<open>getOrCreateRoom\<close> and \<open>addToWaitingRoom\<close> on an unknown
  room id each leave an ad-hoc room without participants in the table.
\<close>

theorem ghost_room_counterexample:
  "\<not> no_ghost_rooms (registry_run [GetOrCreateRoom ''new-room'' None 1] fresh_world) \<and>
   \<not> no_ghost_rooms
       (registry_run
          [AddToWaitingRoom ''test-room''
             \<lparr> w_id = ''wp1'', w_name = Some ''Waiting User'', w_socket = 0,
               w_requestedAt = 1 \<rparr> 1] fresh_world)"
  by code_simp

section \<open>Host\<close>

lemma reg_inv_iff: "reg_inv w \<longleftrightarrow> refs_ok w \<and> host_exists w"
  by (auto simp: reg_inv_def refs_ok_def host_exists_def room_inv_def list_all_iff)

lemma room_inv_mono:
  assumes "room_inv h n kr" and "store_extends h n h' n'"
  shows "room_inv h' n' kr"
proof -
  obtain k room where kr: "kr = (k, room)" by (cases kr)
  have refs: "\<forall>(pid, a) \<in> set (r_participants room). a < n \<and> p_id (h a) = pid"
    using assms(1) by (simp add: kr room_inv_def room_refs_ok_def list_all_iff)
  have refs': "room_refs_ok h' n' room"
    using refs assms(2)
    by (fastforce simp: room_refs_ok_def list_all_iff store_extends_def)
  have host': "room_has_host h' room" if "r_participants room \<noteq> []"
  proof -
    from that assms(1) have "room_has_host h room" by (simp add: kr room_inv_def)
    then obtain hid a where hid: "r_hostId room = Some hid"
      and a: "map_of (r_participants room) hid = Some a"
      and ok: "p_id (h a) = hid" "p_isModerator (h a)"
      by (auto simp: room_has_host_def split: option.splits)
    from a have "(hid, a) \<in> set (r_participants room)" by (rule map_of_SomeD)
    with refs have "a < n" by auto
    with assms(2) ok have "p_id (h' a) = hid" "p_isModerator (h' a)"
      by (auto simp: store_extends_def)
    with hid a show ?thesis by (simp add: room_has_host_def)
  qed
  show ?thesis using refs' host' by (auto simp: kr room_inv_def)
qed

lemma reg_inv_rooms_set:
  "reg_inv w \<Longrightarrow> room_inv (heap w) (nextAddr w) (r, room) \<Longrightarrow> reg_inv (rooms_set r room w)"
  by (simp add: reg_inv_def rooms_set_def list_all_update)

lemma reg_inv_getRoom:
  "reg_inv w \<Longrightarrow> getRoom w r = Some room \<Longrightarrow> room_inv (heap w) (nextAddr w) (r, room)"
  by (simp add: reg_inv_def getRoom_def list_all_map_of)

lemma reg_inv_store:
  assumes "reg_inv w" and "store_extends (heap w) (nextAddr w) h' n'"
  shows "list_all (room_inv h' n') (rooms w)"
  using assms by (auto simp: reg_inv_def list_all_iff intro: room_inv_mono)

lemma heap_send_each [simp]:
  "heap (send_each ps m w) = heap w" "nextAddr (send_each ps m w) = nextAddr w"
  by (induction ps arbitrary: w) (auto simp: socket_send_def)

lemma reg_inv_frame [simp]:
  "reg_inv (persistPreCreatedRooms w) = reg_inv w"
  "reg_inv (socket_close s w) = reg_inv w"
  "reg_inv (broadcast r m e w) = reg_inv w"
  "reg_inv (sendTo p r m w) = reg_inv w"
  "reg_inv (w\<lparr>peakParticipants := n\<rparr>) = reg_inv w"
  by (simp_all add: reg_inv_def persistPreCreatedRooms_def socket_close_def broadcast_def
      sendTo_def socket_send_def split: option.splits)

lemma room_inv_empty: "r_participants room = [] \<Longrightarrow> room_inv h n (r, room)"
  by (simp add: room_inv_def room_refs_ok_def)

lemma room_inv_upd [simp]:
  "room_inv h n (r, room\<lparr>r_waitingRoom := x\<rparr>) = room_inv h n (r, room)"
  "room_inv h n (r, room\<lparr>r_isLocked := b\<rparr>) = room_inv h n (r, room)"
  by (simp_all add: room_inv_def room_refs_ok_def room_has_host_def cong: option.case_cong)

lemma store_extends_refl [simp]: "store_extends h n h n"
  by (simp add: store_extends_def)

lemma reg_inv_createRoom: "reg_inv w \<Longrightarrow> reg_inv (snd (createRoom r c now w))"
  by (auto simp: createRoom_def Let_def intro!: reg_inv_rooms_set room_inv_empty)

lemma reg_inv_preCreateRoom: "reg_inv w \<Longrightarrow> reg_inv (snd (preCreateRoom i p m g t now w))"
  by (auto simp: preCreateRoom_def Let_def intro!: reg_inv_rooms_set room_inv_empty)

lemma reg_inv_getOrCreateRoom: "reg_inv w \<Longrightarrow> reg_inv (snd (getOrCreateRoom r c now w))"
  by (auto simp: getOrCreateRoom_def reg_inv_createRoom split: option.splits)

lemma reg_inv_addToWaitingRoom:
  assumes "reg_inv w"
  shows "reg_inv (snd (addToWaitingRoom r p now w))"
proof (cases "getRoom w r")
  case None
  then show ?thesis using assms
    by (auto simp: addToWaitingRoom_def getOrCreateRoom_def createRoom_def Let_def
        intro!: reg_inv_rooms_set room_inv_empty)
next
  case (Some room)
  then show ?thesis using assms reg_inv_getRoom[OF assms Some]
    by (auto simp: addToWaitingRoom_def getOrCreateRoom_def
        intro!: reg_inv_rooms_set)
qed

lemma reg_inv_admit: "reg_inv w \<Longrightarrow> reg_inv (snd (admitFromWaitingRoom r p w))"
  using reg_inv_getRoom[of w r]
  by (auto simp: admitFromWaitingRoom_def intro!: reg_inv_rooms_set
      split: option.splits)

lemma reg_inv_reject: "reg_inv w \<Longrightarrow> reg_inv (snd (rejectFromWaitingRoom r p w))"
  using reg_inv_getRoom[of w r]
  by (auto simp: rejectFromWaitingRoom_def intro!: reg_inv_rooms_set
      split: option.splits)

lemma reg_inv_lock: "reg_inv w \<Longrightarrow> reg_inv (lockRoom r w)"
  using reg_inv_getRoom[of w r]
  by (auto simp: lockRoom_def intro!: reg_inv_rooms_set
      split: option.splits)

lemma reg_inv_unlock: "reg_inv w \<Longrightarrow> reg_inv (unlockRoom r w)"
  using reg_inv_getRoom[of w r]
  by (auto simp: unlockRoom_def intro!: reg_inv_rooms_set
      split: option.splits)

lemma reg_inv_cleanup: "reg_inv w \<Longrightarrow> reg_inv (snd (cleanupAbandonedRooms m now w))"
  by (auto simp: cleanupAbandonedRooms_def Let_def reg_inv_def persistPreCreatedRooms_def
      list_all_iff)

lemma reg_inv_update:
  assumes "reg_inv w" and "u_id u = None" and "u_isModerator u \<noteq> Some False"
  shows "reg_inv (updateParticipant r p u w)"
proof -
  have "store_extends (heap w) (nextAddr w) ((heap w)(a := assign (heap w a) u)) (nextAddr w)"
    for a using assms(2,3)
    by (auto simp: store_extends_def assign_def split: option.splits)
  from reg_inv_store[OF assms(1) this] show ?thesis
    using assms(1) by (auto simp: updateParticipant_def reg_inv_def split: option.splits)
qed

lemma room_inv_add_host:
  assumes "room_refs_ok h n room"
  shows "room_inv (h(n := p\<lparr>p_isModerator := True\<rparr>)) (Suc n)
           (r, room\<lparr>r_hostId := Some (p_id p),
                    r_participants := AList.update (p_id p) n (r_participants room)\<rparr>)"
proof -
  have "list_all (\<lambda>(pid, a). a < Suc n \<and> p_id ((h(n := p\<lparr>p_isModerator := True\<rparr>)) a) = pid)
          (r_participants room)"
    using assms by (auto simp: room_refs_ok_def list_all_iff)
  then have "list_all (\<lambda>(pid, a). a < Suc n \<and> p_id ((h(n := p\<lparr>p_isModerator := True\<rparr>)) a) = pid)
          (AList.update (p_id p) n (r_participants room))"
    by (rule list_all_update) simp
  then show ?thesis
    by (simp add: room_inv_def room_refs_ok_def room_has_host_def update_conv')
qed

lemma room_inv_add_other:
  assumes "room_inv h n (r, room)" and "r_participants room \<noteq> []"
    and "map_of (r_participants room) (p_id p) = None"
  shows "room_inv (h(n := p)) (Suc n)
           (r, room\<lparr>r_participants := AList.update (p_id p) n (r_participants room)\<rparr>)"
proof -
  have refs: "\<forall>(pid, a) \<in> set (r_participants room). a < n \<and> p_id (h a) = pid"
    using assms(1) by (simp add: room_inv_def room_refs_ok_def list_all_iff)
  then have "list_all (\<lambda>(pid, a). a < Suc n \<and> p_id ((h(n := p)) a) = pid) (r_participants room)"
    by (auto simp: list_all_iff)
  then have r: "list_all (\<lambda>(pid, a). a < Suc n \<and> p_id ((h(n := p)) a) = pid)
          (AList.update (p_id p) n (r_participants room))"
    by (rule list_all_update) simp
  from assms(1,2) have "room_has_host h room" by (simp add: room_inv_def)
  then obtain hid a where hid: "r_hostId room = Some hid"
    and a: "map_of (r_participants room) hid = Some a"
    and ok: "p_id (h a) = hid" "p_isModerator (h a)"
    by (auto simp: room_has_host_def split: option.splits)
  from a assms(3) have ne: "hid \<noteq> p_id p" by auto
  from a have "(hid, a) \<in> set (r_participants room)" by (rule map_of_SomeD)
  with refs have "a \<noteq> n" by auto
  with hid a ok ne r show ?thesis
    by (simp add: room_inv_def room_refs_ok_def room_has_host_def update_conv')
qed

lemma store_extends_new [simp]: "store_extends h n (h(n := x)) (Suc n)"
  by (simp add: store_extends_def)

lemma reg_inv_add_step:
  assumes "reg_inv w" and "host_safe w (AddParticipant r p isHost now)"
  shows "reg_inv (registry_step (AddParticipant r p isHost now) w)"
proof -
  let ?n = "nextAddr w"
  have all: "list_all (room_inv ((heap w)(?n := x)) (Suc ?n)) (rooms w)" for x
    using reg_inv_store[OF assms(1)] by simp
  show ?thesis
  proof (cases "getRoom w r")
    case None
    have "room_inv ((heap w)(?n := p\<lparr>p_isModerator := True\<rparr>)) (Suc ?n) (r, room)"
      if "r_participants room = [(p_id p, ?n)]" and "r_hostId room = Some (p_id p)" for room
      using that by (simp add: room_inv_def room_refs_ok_def room_has_host_def)
    then show ?thesis using None all
      by (simp add: new_participant_def addParticipant_def getOrCreateRoom_def createRoom_def
          Let_def getRoom_def rooms_set_def reg_inv_def defaultMaxParticipants_def size_ge_def
          list_all_update)
  next
    case (Some room)
    have inv: "room_inv (heap w) ?n (r, room)" using reg_inv_getRoom[OF assms(1) Some] .
    then have refs: "room_refs_ok (heap w) ?n room" by (simp add: room_inv_def)
    have safe: "map_of (r_participants room) (p_id p) = None"
      using assms(2) Some by simp
    show ?thesis
      using Some all room_inv_add_host[OF refs, of p r]
        room_inv_add_other[OF inv _ safe]
      by (simp add: new_participant_def addParticipant_def getOrCreateRoom_def
          Let_def getRoom_def rooms_set_def reg_inv_def list_all_update)
  qed
qed

lemma store_extends_promote [simp]:
  "store_extends h n (h(a := (h a)\<lparr>p_isModerator := True\<rparr>)) n"
  by (simp add: store_extends_def)

lemma reg_inv_removeParticipant:
  assumes "reg_inv w"
  shows "reg_inv (removeParticipant r p w)"
proof (cases "getRoom w r")
  case None
  then show ?thesis using assms by (simp add: removeParticipant_none)
next
  case (Some room)
  let ?n = "nextAddr w"
  have inv: "room_inv (heap w) ?n (r, room)" using reg_inv_getRoom[OF assms Some] .
  then have refs: "\<forall>(pid, a) \<in> set (r_participants room). a < ?n \<and> p_id (heap w a) = pid"
    by (simp add: room_inv_def room_refs_ok_def list_all_iff)
  have sub: "set (AList.delete p (r_participants room)) \<subseteq> set (r_participants room)"
    by (auto simp: AList.delete_eq)
  show ?thesis
  proof (cases "AList.delete p (r_participants room)")
    case Nil
    have "reg_inv (w\<lparr>rooms := AList.delete r (rooms w)\<rparr>)"
      using assms by (simp add: reg_inv_def list_all_delete)
    moreover have "reg_inv (rooms_set r (room\<lparr>r_participants := []\<rparr>) w)"
      using assms by (intro reg_inv_rooms_set room_inv_empty) simp_all
    ultimately show ?thesis by (simp add: removeParticipant_last[OF Some Nil])
  next
    case (Cons e rest)
    obtain k a where e: "e = (k, a)" by (cases e)
    note Cons' = Cons[unfolded e]
    have refs': "\<forall>(pid, a) \<in> set ((k, a) # rest). a < ?n \<and> p_id (heap w a) = pid"
      using refs sub unfolding Cons' by blast
    show ?thesis
    proof (cases "r_hostId room = Some p")
      case True
      let ?h = "(heap w)(a := (heap w a)\<lparr>p_isModerator := True\<rparr>)"
      have "room_inv ?h ?n
              (r, room\<lparr>r_participants := (k, a) # rest, r_hostId := Some (p_id (heap w a))\<rparr>)"
        using refs'
        by (auto simp: room_inv_def room_refs_ok_def room_has_host_def list_all_iff)
      moreover have "list_all (room_inv ?h ?n) (rooms w)"
        using reg_inv_store[OF assms] by simp
      ultimately show ?thesis
        unfolding removeParticipant_host[OF Some Cons' True]
        by (simp add: reg_inv_def rooms_set_def list_all_update)
    next
      case False
      have "r_participants room \<noteq> []" using Cons by auto
      with inv have "room_has_host (heap w) room" by (simp add: room_inv_def)
      then obtain hid b where hid: "r_hostId room = Some hid"
        and b: "map_of (r_participants room) hid = Some b"
        and ok: "p_id (heap w b) = hid" "p_isModerator (heap w b)"
        by (auto simp: room_has_host_def split: option.splits)
      from hid False have "hid \<noteq> p" by simp
      then have "map_of (AList.delete p (r_participants room)) hid = Some b"
        using b by simp
      then have "room_inv (heap w) ?n (r, room\<lparr>r_participants := (k, a) # rest\<rparr>)"
        using refs' hid ok unfolding Cons'
        by (auto simp: room_inv_def room_refs_ok_def room_has_host_def list_all_iff)
      then show ?thesis
        unfolding removeParticipant_other[OF Some Cons' False]
        using assms by (intro reg_inv_rooms_set)
    qed
  qed
qed

lemma reg_inv_step:
  assumes "reg_inv w" and "host_safe w op"
  shows "reg_inv (registry_step op w)"
proof (cases op)
  case (CreateRoom r c n)
  then show ?thesis using assms by (simp add: reg_inv_createRoom)
next
  case (PreCreateRoom i p m g t n)
  then show ?thesis using assms by (simp add: reg_inv_preCreateRoom)
next
  case (GetOrCreateRoom r c n)
  then show ?thesis using assms by (simp add: reg_inv_getOrCreateRoom)
next
  case (AddToWaitingRoom r p n)
  then show ?thesis using assms by (simp add: reg_inv_addToWaitingRoom)
next
  case (AdmitFromWaitingRoom r p)
  then show ?thesis using assms by (simp add: reg_inv_admit)
next
  case (RejectFromWaitingRoom r p)
  then show ?thesis using assms by (simp add: reg_inv_reject)
next
  case (AddParticipant r p h n)
  then show ?thesis using assms reg_inv_add_step by blast
next
  case (RemoveParticipant r p)
  then show ?thesis using assms by (simp add: reg_inv_removeParticipant)
next
  case (UpdateParticipant r p u)
  then show ?thesis using assms by (simp add: reg_inv_update)
next
  case (LockRoom r)
  then show ?thesis using assms by (simp add: reg_inv_lock)
next
  case (UnlockRoom r)
  then show ?thesis using assms by (simp add: reg_inv_unlock)
next
  case (Broadcast r m e)
  then show ?thesis using assms by simp
next
  case (SendTo p r m)
  then show ?thesis using assms by simp
next
  case (CleanupAbandonedRooms m n)
  then show ?thesis using assms by (simp add: reg_inv_cleanup)
next
  case (KickParticipant r p)
  then show ?thesis using assms
    by (auto simp: kickParticipant_def Let_def reg_inv_removeParticipant split: option.splits)
qed

lemma reg_inv_run:
  assumes "reg_inv w" and "host_safe_run w ops"
  shows "reg_inv (registry_run ops w)"
  using assms by (induction ops arbitrary: w) (simp_all add: reg_inv_step)

lemma no_participants_reg_inv: "no_participants w \<Longrightarrow> reg_inv w"
  by (auto simp: no_participants_def reg_inv_def list_all_iff intro: room_inv_empty)


lemma add_becomes_host:
  assumes "add_succeeds v roomId p isHost now"
    and "isHost \<or> getParticipants v roomId = []"
  shows "is_host (registry_step (AddParticipant roomId p isHost now) v) roomId (p_id p)"
proof (cases "getRoom v roomId")
  case None
  then show ?thesis
    by (simp add: is_host_def host_of_def lookup_participant_def new_participant_def
        addParticipant_def getOrCreateRoom_def createRoom_def Let_def getRoom_def rooms_set_def
        defaultMaxParticipants_def size_ge_def update_conv')
next
  case (Some room)
  then have "isHost \<or> r_participants room = []"
    using assms(2) by (simp add: getParticipants_def getRoom_def)
  moreover have "\<not> size_ge (length (r_participants room)) (r_maxParticipants room)"
    using assms(1) Some
    by (auto simp: add_succeeds_def new_participant_def addParticipant_def getOrCreateRoom_def
        Let_def getRoom_def split: if_splits)
  ultimately show ?thesis using Some
    by (auto simp: is_host_def host_of_def lookup_participant_def new_participant_def
        addParticipant_def getOrCreateRoom_def Let_def getRoom_def rooms_set_def update_conv')
qed

lemma remove_promotes:
  assumes "reg_inv v" and "host_of v roomId = Some hostId"
    and "getParticipants (removeParticipant roomId hostId v) roomId \<noteq> []"
  shows "\<exists>newHost. newHost \<noteq> hostId \<and> lookup_participant v roomId newHost \<noteq> None \<and>
           is_host (removeParticipant roomId hostId v) roomId newHost"
proof -
  from assms(2) obtain room where room: "getRoom v roomId = Some room"
    and host: "r_hostId room = Some hostId"
    by (auto simp: host_of_def split: option.splits)
  have refs: "\<forall>(pid, a) \<in> set (r_participants room). p_id (heap v a) = pid"
    using reg_inv_getRoom[OF assms(1) room]
    by (auto simp: room_inv_def room_refs_ok_def list_all_iff)
  show ?thesis
  proof (cases "AList.delete hostId (r_participants room)")
    case Nil
    have "getParticipants (removeParticipant roomId hostId v) roomId = []"
      by (simp add: removeParticipant_last[OF room Nil] getParticipants_def getRoom_def
          rooms_set_def update_conv' delete_conv')
    with assms(3) show ?thesis by simp
  next
    case (Cons e rest)
    obtain k a where e: "e = (k, a)" by (cases e)
    note Cons' = Cons[unfolded e]
    have mem: "(k, a) \<in> set (AList.delete hostId (r_participants room))"
      by (simp add: Cons')
    then have ne: "k \<noteq> hostId" and old: "(k, a) \<in> set (r_participants room)"
      by (auto simp: AList.delete_eq)
    from old refs have id: "p_id (heap v a) = k" by auto
    from old have "map_of (r_participants room) k \<noteq> None"
      by (metis map_of_eq_None_iff fst_conv image_eqI)
    then have before: "lookup_participant v roomId k \<noteq> None"
      using room by (simp add: lookup_participant_def)
    have after: "is_host (removeParticipant roomId hostId v) roomId k"
      unfolding removeParticipant_host[OF room Cons' host]
      using id
      by (simp add: is_host_def host_of_def lookup_participant_def getRoom_def rooms_set_def
          update_conv')
    from ne before after show ?thesis by blast
  qed
qed


text \<open>
  Claim C3, as amended. Start from any state in which no room has a participant (a
  RoomManager as constructed) and run any sequence of RoomManager operations in which
  no \<open>addParticipant\<close> re-uses an id that the room already holds and no
  \<open>updateParticipant\<close> patch carries \<open>id\<close> or \<open>isModerator = false\<close>. Then in every room
  that has participants, \<open>hostId\<close> is the key of an entry of \<open>participants\<close>, that
  participant's own \<open>id\<close> is \<open>hostId\<close>, and its \<open>isModerator\<close> is true. In particular,
  in the state reached: when \<open>addParticipant\<close> returns true for the first participant
  of a room or for one added with \<open>isHost\<close>, that participant is the host afterwards,
  with its moderator bit set; and when the host is removed and participants remain, the
  host afterwards is one of the participants that the room held before, not the one
  removed, with its moderator bit set.
\<close>

theorem host_exists_preserved:
  assumes "no_participants w" and "host_safe_run w ops"
  shows "host_exists (registry_run ops w) \<and>
         (\<forall>roomId p isHost now.
            add_succeeds (registry_run ops w) roomId p isHost now \<and>
            (isHost \<or> getParticipants (registry_run ops w) roomId = []) \<longrightarrow>
            is_host (registry_step (AddParticipant roomId p isHost now) (registry_run ops w))
              roomId (p_id p)) \<and>
         (\<forall>roomId hostId.
            host_of (registry_run ops w) roomId = Some hostId \<and>
            getParticipants (removeParticipant roomId hostId (registry_run ops w)) roomId \<noteq> [] \<longrightarrow>
            (\<exists>newHost. newHost \<noteq> hostId \<and>
               lookup_participant (registry_run ops w) roomId newHost \<noteq> None \<and>
               is_host (removeParticipant roomId hostId (registry_run ops w)) roomId newHost))"
proof -
  have inv: "reg_inv (registry_run ops w)"
    using reg_inv_run[OF no_participants_reg_inv[OF assms(1)] assms(2)] .
  then have "host_exists (registry_run ops w)" by (simp add: reg_inv_iff)
  then show ?thesis
    using add_becomes_host remove_promotes[OF inv] by blast
qed

theorem host_exists_preserved_witness:
  "no_participants fresh_world \<and> host_safe_run fresh_world host_leaves_ops \<and>
   host_exists (registry_run host_leaves_ops fresh_world) \<and>
   participant_ids (registry_run host_leaves_ops fresh_world) ''ABC123'' = [''P3''] \<and>
   is_host (registry_run host_leaves_ops fresh_world) ''ABC123'' ''P3'' \<and>
   host_safe_run fresh_world (take 2 host_leaves_ops) \<and>
   is_host (registry_run (take 2 host_leaves_ops) fresh_world) ''ABC123'' ''P1'' \<and>
   add_succeeds (registry_run (take 2 host_leaves_ops) fresh_world) ''ABC123''
     (person ''P3'' ''Carol'' 2 ''ABC123'') True 3 \<and>
   is_host
     (registry_step (AddParticipant ''ABC123'' (person ''P3'' ''Carol'' 2 ''ABC123'') True 3)
        (registry_run (take 2 host_leaves_ops) fresh_world)) ''ABC123'' ''P3'' \<and>
   host_safe_run fresh_world (take 3 host_leaves_ops) \<and>
   host_of (registry_run (take 3 host_leaves_ops) fresh_world) ''ABC123'' = Some ''P1'' \<and>
   participant_ids
     (removeParticipant ''ABC123'' ''P1'' (registry_run (take 3 host_leaves_ops) fresh_world))
     ''ABC123'' = [''P2'', ''P3''] \<and>
   is_host
     (removeParticipant ''ABC123'' ''P1'' (registry_run (take 3 host_leaves_ops) fresh_world))
     ''ABC123'' ''P2''"
proof -
  have h1: "no_participants fresh_world" by code_simp
  have h2: "host_safe_run fresh_world host_leaves_ops" by code_simp
  have h3: "participant_ids (registry_run host_leaves_ops fresh_world) ''ABC123'' = [''P3'']"
    by code_simp
  have h4: "is_host (registry_run host_leaves_ops fresh_world) ''ABC123'' ''P3''" by code_simp
  have a1: "host_safe_run fresh_world (take 2 host_leaves_ops)" by code_simp
  have a2: "is_host (registry_run (take 2 host_leaves_ops) fresh_world) ''ABC123'' ''P1''"
    by code_simp
  have a3: "add_succeeds (registry_run (take 2 host_leaves_ops) fresh_world) ''ABC123''
              (person ''P3'' ''Carol'' 2 ''ABC123'') True 3" by code_simp
  have a4: "p_id (person ''P3'' ''Carol'' 2 ''ABC123'') = ''P3''" by code_simp
  have a5: "is_host
     (registry_step (AddParticipant ''ABC123'' (person ''P3'' ''Carol'' 2 ''ABC123'') True 3)
        (registry_run (take 2 host_leaves_ops) fresh_world)) ''ABC123'' ''P3''"
    using host_exists_preserved[OF h1 a1] a3 a4 by metis
  have r1: "host_safe_run fresh_world (take 3 host_leaves_ops)" by code_simp
  have r2: "host_of (registry_run (take 3 host_leaves_ops) fresh_world) ''ABC123'' = Some ''P1''"
    by code_simp
  have r3: "participant_ids
     (removeParticipant ''ABC123'' ''P1'' (registry_run (take 3 host_leaves_ops) fresh_world))
     ''ABC123'' = [''P2'', ''P3'']" by code_simp
  have r4: "is_host
     (removeParticipant ''ABC123'' ''P1'' (registry_run (take 3 host_leaves_ops) fresh_world))
     ''ABC123'' ''P2''" by code_simp
  have c1: "host_exists (registry_run host_leaves_ops fresh_world)"
    using host_exists_preserved[OF h1 h2] by blast
  show ?thesis by (intro conjI h1 h2 c1 h3 h4 a1 a2 a3 a5 r1 r2 r3 r4)
qed

text \<open>
  Claim C3 as stated fails: \<open>updateParticipant\<close> writes whatever the patch carries, so
  it can clear the host's \<open>isModerator\<close>; and \<open>addParticipant\<close> with the host's id
  replaces the host's entry by an object that is no moderator.
\<close>

theorem host_exists_counterexample:
  "\<not> host_exists (registry_run demote_host_ops fresh_world) \<and>
   \<not> host_exists (registry_run same_id_ops fresh_world)"
  by code_simp

section \<open>The join handler and ROOM_NOT_FOUND\<close>








lemma nf_outbox_cong: "outbox w' = outbox w \<Longrightarrow> not_found_frames w' = not_found_frames w"
  by (simp add: not_found_frames_def)

lemma outbox_rooms_set [simp]: "outbox (rooms_set r room w) = outbox w"
  by (simp add: rooms_set_def)

lemma outbox_createRoom [simp]: "outbox (snd (createRoom r c n w)) = outbox w"
  by (simp add: createRoom_def Let_def)

lemma outbox_getOrCreateRoom [simp]: "outbox (snd (getOrCreateRoom r c n w)) = outbox w"
  by (simp add: getOrCreateRoom_def split: option.splits)

lemma outbox_addToWaitingRoom [simp]: "outbox (snd (addToWaitingRoom r p n w)) = outbox w"
  by (simp add: addToWaitingRoom_def Let_def)

lemma outbox_addParticipant [simp]: "outbox (snd (addParticipant r a h n w)) = outbox w"
  by (simp add: addParticipant_def Let_def)

lemma outbox_new_participant [simp]: "outbox (snd (new_participant p w)) = outbox w"
  by (simp add: new_participant_def)



lemma nf_steps [simp]:
  "not_found_frames (snd (createRoom r c n w)) = not_found_frames w"
  "not_found_frames (snd (addToWaitingRoom r wp n w)) = not_found_frames w"
  "not_found_frames (snd (addParticipant r a h n w)) = not_found_frames w"
  "not_found_frames (snd (new_participant p w)) = not_found_frames w"
  by (rule nf_outbox_cong, simp)+














section \<open>Relay\<close>

lemma relay_dispatch:
  "is_relay (m_type message) \<Longrightarrow>
   handleMessage socket (Some message) uuid now w = handleRelayMessage socket message now w"
  by (auto simp: is_relay_def handleMessage_def)


text \<open>
  Claim C6, as amended. A relay message (\<open>offer\<close>, \<open>answer\<close>, \<open>ice-candidate\<close>,
  \<open>file-offer\<close>, \<open>file-answer\<close>, \<open>file-chunk\<close>, \<open>quality-change\<close>) arrives on a socket
  that is bound to a participant. Then the server changes nothing but the sockets'
  output; it writes at most one frame; and a frame it writes goes to the socket of the
  participant that the sender's room holds under the message's \<open>targetId\<close>, that socket
  being open, and is the message with \<open>participantId\<close> replaced by the sender's id as
  the server knows it. So no participant on another socket receives a copy. When the
  target is in the room with an open socket, that one frame is written. The sender's
  socket is written to exactly when it is the target's socket and open: nothing compares
  the target with the sender.
\<close>

theorem relay_to_target_only:
  assumes "participants w socket = Some sender" and "is_relay (m_type message)"
  shows "handleMessage socket (Some message) uuid now w =
           w\<lparr>outbox := outbox w @ emitted w (handleMessage socket (Some message) uuid now w)\<rparr> \<and>
         length (emitted w (handleMessage socket (Some message) uuid now w)) \<le> 1 \<and>
         (\<forall>(s, f) \<in> set (emitted w (handleMessage socket (Some message) uuid now w)).
              \<exists>targetId target.
                m_targetId message = Some targetId \<and>
                lookup_participant w (p_roomId (heap w sender)) targetId = Some target \<and>
                s = p_socket (heap w target) \<and> readyState w s = 1 \<and>
                f = Send (message\<lparr>m_participantId := p_id (heap w sender)\<rparr>)) \<and>
         (\<forall>targetId target.
              m_targetId message = Some targetId \<and> targetId \<noteq> [] \<and>
              lookup_participant w (p_roomId (heap w sender)) targetId = Some target \<and>
              readyState w (p_socket (heap w target)) = 1 \<longrightarrow>
              emitted w (handleMessage socket (Some message) uuid now w) =
                [(p_socket (heap w target),
                  Send (message\<lparr>m_participantId := p_id (heap w sender)\<rparr>))]) \<and>
         ((\<exists>f. (socket, f) \<in> set (emitted w (handleMessage socket (Some message) uuid now w)))
          \<longleftrightarrow>
          (\<exists>targetId target.
              m_targetId message = Some targetId \<and> targetId \<noteq> [] \<and>
              lookup_participant w (p_roomId (heap w sender)) targetId = Some target \<and>
              p_socket (heap w target) = socket \<and> readyState w socket = 1))"
  using assms
  by (auto simp: relay_dispatch handleRelayMessage_def sendTo_def socket_send_def truthy_str_def
      emitted_def lookup_participant_def split: option.splits)

theorem relay_to_target_only_witness:
  "participants alice_and_bob 1 = Some 1 \<and> is_relay (m_type bobs_offer) \<and>
   p_id (heap alice_and_bob 1) = ''P2'' \<and>
   m_participantId bobs_offer = ''P1'' \<and>
   length (emitted alice_and_bob (handleMessage 1 (Some bobs_offer) [] 3 alice_and_bob)) \<le> 1 \<and>
   emitted alice_and_bob (handleMessage 1 (Some bobs_offer) [] 3 alice_and_bob) =
     [(0, Send (bobs_offer\<lparr>m_participantId := ''P2''\<rparr>))] \<and>
   handleMessage 1 (Some bobs_offer) [] 3 alice_and_bob =
     alice_and_bob\<lparr>outbox := outbox alice_and_bob @
                                 [(0, Send (bobs_offer\<lparr>m_participantId := ''P2''\<rparr>))]\<rparr>"
proof -
  have h1: "participants alice_and_bob 1 = Some 1" by code_simp
  have h2: "is_relay (m_type bobs_offer)" by code_simp
  have h3: "emitted alice_and_bob (handleMessage 1 (Some bobs_offer) [] 3 alice_and_bob) =
              [(0, Send (bobs_offer\<lparr>m_participantId := ''P2''\<rparr>))]" by code_simp
  have h4: "p_id (heap alice_and_bob 1) = ''P2''" by code_simp
  have h5: "m_participantId bobs_offer = ''P1''" by code_simp
  have c1: "length (emitted alice_and_bob (handleMessage 1 (Some bobs_offer) [] 3 alice_and_bob)) \<le> 1"
    using relay_to_target_only[OF h1 h2, of "[]" 3] by blast
  have "handleMessage 1 (Some bobs_offer) [] 3 alice_and_bob =
          alice_and_bob\<lparr>outbox := outbox alice_and_bob @
             emitted alice_and_bob (handleMessage 1 (Some bobs_offer) [] 3 alice_and_bob)\<rparr>"
    using relay_to_target_only[OF h1 h2, of "[]" 3] by blast
  then have c2: "handleMessage 1 (Some bobs_offer) [] 3 alice_and_bob =
     alice_and_bob\<lparr>outbox := outbox alice_and_bob @
                                 [(0, Send (bobs_offer\<lparr>m_participantId := ''P2''\<rparr>))]\<rparr>"
    by (simp only: h3)
  show ?thesis by (intro conjI h1 h2 h3 h4 h5 c1 c2)
qed

text \<open>
  Claim C6 as stated fails: a relay whose \<open>targetId\<close> is the sender's own id is written
  back to the sender's socket.
\<close>

theorem relay_echo_counterexample:
  "participants alice_and_bob 1 = Some 1 \<and> p_id (heap alice_and_bob 1) = ''P2'' \<and>
   is_relay (m_type bobs_echo) \<and> m_targetId bobs_echo = Some ''P2'' \<and>
   emitted alice_and_bob (handleMessage 1 (Some bobs_echo) [] 3 alice_and_bob) =
     [(1, Send bobs_echo)]"
  by code_simp

section \<open>Sockets that have not joined\<close>

lemma sendError_open:
  "readyState w s = 1 \<Longrightarrow> sendError s text code now w = answered w s [errorMessage text code now]"
  by (simp add: sendError_def socket_send_def answered_def)

lemma handleMessage_dispatch:
  "m_type message = Leave \<Longrightarrow> handleMessage s (Some message) u n w = handleLeave s n w"
  "is_relay (m_type message) \<Longrightarrow>
     handleMessage s (Some message) u n w = handleRelayMessage s message n w"
  "m_type message = Chat \<Longrightarrow> handleMessage s (Some message) u n w = handleChat s message n w"
  "m_type message = ParticipantUpdated \<Longrightarrow>
     handleMessage s (Some message) u n w = handleParticipantUpdate s message n w"
  "m_type message = RaiseHand \<Longrightarrow> handleMessage s (Some message) u n w = handleRaiseHand s n w"
  "m_type message = LowerHand \<Longrightarrow> handleMessage s (Some message) u n w = handleLowerHand s n w"
  "m_type message = ModeratorActionT \<Longrightarrow>
     handleMessage s (Some message) u n w = handleModeratorAction s message n w"
  "m_type message = RoomLocked \<Longrightarrow> handleMessage s (Some message) u n w = handleRoomLock s n w"
  "m_type message = RoomUnlocked \<Longrightarrow>
     handleMessage s (Some message) u n w = handleRoomUnlock s n w"
  "m_type message = AdmitUser \<Longrightarrow>
     handleMessage s (Some message) u n w = handleAdmitUser s message n w"
  "m_type message = RejectUser \<Longrightarrow>
     handleMessage s (Some message) u n w = handleRejectUser s message n w"
  "m_type message \<in> {ParticipantJoined, ParticipantLeft, WaitingRoom, RecordingStarted,
                      RecordingStopped, ErrorT} \<or> (\<exists>t. m_type message = OtherType t) \<Longrightarrow>
     handleMessage s (Some message) u n w = sendError s ''Unknown message type'' None n w"
  by (auto simp: handleMessage_def is_relay_def)

lemma unbound_handlers:
  assumes "participants w s = None" and "readyState w s = 1"
  shows "handleChat s message n w = answered w s [errorMessage ''Not joined to a room'' None n]"
    and "handleParticipantUpdate s message n w =
           answered w s [errorMessage ''Not joined to a room'' None n]"
    and "handleModeratorAction s message n w =
           answered w s [errorMessage ''Not joined to a room'' None n]"
    and "handleRelayMessage s message n w =
           answered w s [errorMessage ''Not joined to a room'' None n]"
    and "handleRaiseHand s n w = answered w s []"
    and "handleLowerHand s n w = answered w s []"
    and "handleRoomLock s n w =
           answered w s [errorMessage ''Only moderators can lock the room'' None n]"
    and "handleRoomUnlock s n w =
           answered w s [errorMessage ''Only moderators can unlock the room'' None n]"
    and "handleAdmitUser s message n w =
           answered w s [errorMessage ''Only moderators can admit users'' None n]"
    and "handleRejectUser s message n w =
           answered w s [errorMessage ''Only moderators can reject users'' None n]"
  using assms
  by (simp_all add: handleChat_def handleParticipantUpdate_def handleModeratorAction_def
      handleRelayMessage_def handleRaiseHand_def handleLowerHand_def handleRoomLock_def
      handleRoomUnlock_def handleAdmitUser_def handleRejectUser_def bound_moderator_def
      sendError_open answered_def)

lemma unbound_leave:
  "participants w s = None \<Longrightarrow> waitingParticipants w s = None \<Longrightarrow>
   handleLeave s n w = answered w s []"
  by (simp add: handleLeave_def handleDisconnect_def answered_def)

lemma answered_frame: "(answered w s ms)\<lparr>outbox := outbox w\<rparr> = w"
  by (simp add: answered_def)

lemma unbound_answered:
  assumes "participants w socket = None" and "waitingParticipants w socket = None"
    and "readyState w socket = 1" and "m_type message \<noteq> Join"
  shows "(handleMessage socket (Some message) uuid now w)\<lparr>outbox := outbox w\<rparr> = w"
proof (cases "m_type message")
  case Join
  then show ?thesis using assms(4) by simp
qed (simp_all add: handleMessage_dispatch is_relay_def unbound_handlers[OF assms(1,3)]
      unbound_leave[OF assms(1,2)] sendError_open[OF assms(3)] answered_frame)


text \<open>
  Claim C8, as amended. A socket is open and bound to neither a participant nor a
  waiting participant, and a message whose type is not \<open>join\<close> arrives on it. Then
  nothing changes but the socket's output, and the answer depends on the type:
  \<open>chat\<close>, \<open>participant-updated\<close>, \<open>moderator-action\<close> and the relay types are answered
  with the error "Not joined to a room"; \<open>leave\<close>, \<open>raise-hand\<close> and \<open>lower-hand\<close> are
  not answered at all; \<open>room-locked\<close>, \<open>room-unlocked\<close>, \<open>admit-user\<close> and
  \<open>reject-user\<close> are answered with "Only moderators can ..."; every other type is
  answered with "Unknown message type".
\<close>

theorem unbound_socket_answers:
  assumes "participants w socket = None" and "waitingParticipants w socket = None"
    and "readyState w socket = 1" and "m_type message \<noteq> Join"
  shows "(m_type message \<in> {Chat, ParticipantUpdated, ModeratorActionT} \<or> is_relay (m_type message) \<longrightarrow>
            handleMessage socket (Some message) uuid now w =
              answered w socket [errorMessage ''Not joined to a room'' None now]) \<and>
         (m_type message \<in> {Leave, RaiseHand, LowerHand} \<longrightarrow>
            handleMessage socket (Some message) uuid now w = answered w socket []) \<and>
         (m_type message = RoomLocked \<longrightarrow>
            handleMessage socket (Some message) uuid now w =
              answered w socket [errorMessage ''Only moderators can lock the room'' None now]) \<and>
         (m_type message = RoomUnlocked \<longrightarrow>
            handleMessage socket (Some message) uuid now w =
              answered w socket [errorMessage ''Only moderators can unlock the room'' None now]) \<and>
         (m_type message = AdmitUser \<longrightarrow>
            handleMessage socket (Some message) uuid now w =
              answered w socket [errorMessage ''Only moderators can admit users'' None now]) \<and>
         (m_type message = RejectUser \<longrightarrow>
            handleMessage socket (Some message) uuid now w =
              answered w socket [errorMessage ''Only moderators can reject users'' None now]) \<and>
         (m_type message \<in> {ParticipantJoined, ParticipantLeft, WaitingRoom, RecordingStarted,
                             RecordingStopped, ErrorT} \<or> (\<exists>t. m_type message = OtherType t) \<longrightarrow>
            handleMessage socket (Some message) uuid now w =
              answered w socket [errorMessage ''Unknown message type'' None now]) \<and>
         (handleMessage socket (Some message) uuid now w)\<lparr>outbox := outbox w\<rparr> = w"
proof (intro conjI impI)
  show "(handleMessage socket (Some message) uuid now w)\<lparr>outbox := outbox w\<rparr> = w"
    using unbound_answered[OF assms] .
next
  assume "m_type message \<in> {ParticipantJoined, ParticipantLeft, WaitingRoom, RecordingStarted,
                             RecordingStopped, ErrorT} \<or> (\<exists>t. m_type message = OtherType t)"
  then show "handleMessage socket (Some message) uuid now w =
              answered w socket [errorMessage ''Unknown message type'' None now]"
    by (simp only: handleMessage_dispatch(12) sendError_open[OF assms(3)])
next
  assume "m_type message \<in> {Chat, ParticipantUpdated, ModeratorActionT} \<or> is_relay (m_type message)"
  then show "handleMessage socket (Some message) uuid now w =
              answered w socket [errorMessage ''Not joined to a room'' None now]"
    by (auto simp: handleMessage_dispatch unbound_handlers[OF assms(1,3)])
next
  assume "m_type message \<in> {Leave, RaiseHand, LowerHand}"
  then show "handleMessage socket (Some message) uuid now w = answered w socket []"
    by (auto simp: handleMessage_dispatch unbound_handlers[OF assms(1,3)]
        unbound_leave[OF assms(1,2)])
qed (simp_all add: handleMessage_dispatch unbound_handlers[OF assms(1,3)])

theorem unbound_socket_answers_witness:
  "participants lonely_socket 0 = None \<and> waitingParticipants lonely_socket 0 = None \<and>
   readyState lonely_socket 0 = 1 \<and> m_type (envelope Chat ''ABC123'' [] 0) \<noteq> Join \<and>
   handleMessage 0 (Some (envelope Chat ''ABC123'' [] 0)) [] 1 lonely_socket =
     answered lonely_socket 0 [errorMessage ''Not joined to a room'' None 1]"
proof -
  have h1: "participants lonely_socket 0 = None" by code_simp
  have h2: "waitingParticipants lonely_socket 0 = None" by code_simp
  have h3: "readyState lonely_socket 0 = 1" by code_simp
  have h4: "m_type (envelope Chat ''ABC123'' [] 0) \<noteq> Join" by code_simp
  have h5: "m_type (envelope Chat ''ABC123'' [] 0) = Chat" by code_simp
  show ?thesis
    using unbound_socket_answers[OF h1 h2 h3 h4, of "[]" 1] h1 h2 h3 h4 h5 by simp
qed

text \<open>
  Claim C8 as stated fails: \<open>raise-hand\<close> on a socket that has not joined is dropped
  without any answer, and \<open>room-locked\<close> is answered with another error.
\<close>

theorem unbound_socket_counterexample:
  "participants lonely_socket 0 = None \<and> waitingParticipants lonely_socket 0 = None \<and>
   readyState lonely_socket 0 = 1 \<and>
   emitted lonely_socket
     (handleMessage 0 (Some (envelope RaiseHand ''ABC123'' [] 0)) [] 1 lonely_socket) = [] \<and>
   emitted lonely_socket
     (handleMessage 0 (Some (envelope RoomLocked ''ABC123'' [] 0)) [] 1 lonely_socket) =
     [(0, Send (errorMessage ''Only moderators can lock the room'' None 1))]"
  by code_simp

section \<open>Passwords\<close>

text \<open>
  Claim C7, as amended. \<open>validatePassword\<close> returns true exactly when no room with the
  id exists, or the room's stored password is absent or the empty string (the code tests
  it for truthiness), or the candidate is the stored password. An absent candidate equals
  no stored password.
\<close>

theorem validatePassword_iff:
  "validatePassword w roomId candidate \<longleftrightarrow>
     (getRoom w roomId = None
      \<or> (\<exists>room. getRoom w roomId = Some room \<and>
                 (r_password room = None \<or> r_password room = Some []))
      \<or> (\<exists>room stored. getRoom w roomId = Some room \<and> r_password room = Some stored \<and>
                        candidate = Some stored))"
  by (auto simp: validatePassword_def split: option.splits)

theorem validatePassword_iff_witness:
  "validatePassword secret_room ''SEC999'' (Some ''hunter2'') \<and>
   \<not> validatePassword secret_room ''SEC999'' (Some ''wrong'') \<and>
   \<not> validatePassword secret_room ''SEC999'' None \<and>
   validatePassword secret_room ''new-room'' (Some ''anything'')"
proof -
  have h1: "getRoom secret_room ''SEC999'' =
              Some (fst (createRoom ''SEC999''
                (Some \<lparr> c_password = Some ''hunter2'', c_maxParticipants = None \<rparr>)
                1 fresh_world))" by code_simp
  have h2: "r_password (fst (createRoom ''SEC999''
                (Some \<lparr> c_password = Some ''hunter2'', c_maxParticipants = None \<rparr>)
                1 fresh_world)) = Some ''hunter2''" by code_simp
  have h3: "getRoom secret_room ''new-room'' = None" by code_simp
  show ?thesis
    using validatePassword_iff[of secret_room "''SEC999''" "Some ''hunter2''"]
      validatePassword_iff[of secret_room "''SEC999''" "Some ''wrong''"]
      validatePassword_iff[of secret_room "''SEC999''" None]
      validatePassword_iff[of secret_room "''new-room''" "Some ''anything''"]
    by (simp add: h1 h2 h3)
qed

text \<open>
  Claim C7 as stated fails: a room whose stored password is the empty string accepts
  every candidate, though the room exists, a password is stored and the candidate is not
  the stored one.
\<close>

theorem validatePassword_counterexample:
  "map (\<lambda>(k, room). (k, r_password room)) (rooms empty_password_room) =
     [(''EMP000'', Some [])] \<and>
   validatePassword empty_password_room ''EMP000'' (Some ''guess'') \<and>
   validatePassword empty_password_room ''EMP000'' None"
  by code_simp

section \<open>Patching a participant\<close>




section \<open>Creating a room over an existing one\<close>




section \<open>Admitting into a full room\<close>

lemma frame_send_existing [simp]:
  "rooms (send_existing s r ps n w) = rooms w"
  "participants (send_existing s r ps n w) = participants w"
  by (induction ps arbitrary: w) (simp_all add: socket_send_def)

lemma frame_send_each [simp]: "participants (send_each ps m w) = participants w"
  by (induction ps arbitrary: w) (simp_all add: socket_send_def)

lemma frame_socket_send [simp]:
  "rooms (socket_send s m w) = rooms w" "participants (socket_send s m w) = participants w"
  by (simp_all add: socket_send_def)

text \<open>
  Claim C1 does not hold of the code. A moderator admits a participant who is in the
  waiting room of the moderator's room while that room is at its cap. Then
  \<open>admitFromWaitingRoom\<close> removes the entry from the waiting map, \<open>addParticipant\<close>
  refuses, and \<open>handleAdmitUser\<close> does not look at its result: after the handler
  returns the id is in neither map of the room, while the admitted socket is bound to a
  new participant object.
\<close>

theorem admit_into_full_room:
  assumes "bound_moderator w socket = Some moderator"
    and "getRoom w (p_roomId (heap w moderator)) = Some room"
    and "m_type message = AdmitUser" and "m_targetId message = Some targetId"
    and "map_of (r_waitingRoom room) targetId = Some waitingParticipant"
    and "size_ge (length (r_participants room)) (r_maxParticipants room)"
    and "map_of (r_participants room) targetId = None"
  shows "lookup_waiting w (p_roomId (heap w moderator)) targetId = Some waitingParticipant \<and>
         lookup_waiting (handleMessage socket (Some message) uuid now w)
           (p_roomId (heap w moderator)) targetId = None \<and>
         lookup_participant (handleMessage socket (Some message) uuid now w)
           (p_roomId (heap w moderator)) targetId = None \<and>
         participants (handleMessage socket (Some message) uuid now w)
           (w_socket waitingParticipant) = Some (nextAddr w)"
proof -
  let ?r = "p_roomId (heap w moderator)"
  let ?room1 = "room\<lparr>r_waitingRoom := AList.delete targetId (r_waitingRoom room)\<rparr>"
  have admit: "admitFromWaitingRoom ?r targetId w = (Some waitingParticipant, rooms_set ?r ?room1 w)"
    using assms(2,5) by (simp add: admitFromWaitingRoom_def)
  have full: "addParticipant ?r a False now
                (w\<lparr>rooms := AList.update ?r ?room1 (rooms w), heap := h, nextAddr := n\<rparr>) =
              (False, w\<lparr>rooms := AList.update ?r ?room1 (rooms w), heap := h, nextAddr := n\<rparr>)"
    for a h n
    using assms(6)
    by (simp add: addParticipant_def getOrCreateRoom_def getRoom_def update_conv' Let_def)
  have rooms: "rooms (handleMessage socket (Some message) uuid now w) =
                 AList.update ?r ?room1 (rooms w)"
    using assms(1,3,4)
    by (simp add: handleMessage_def handleAdmitUser_def admit full Let_def new_participant_def
        rooms_set_def)
  have bound: "participants (handleMessage socket (Some message) uuid now w)
                 (w_socket waitingParticipant) = Some (nextAddr w)"
    using assms(1,3,4)
    by (simp add: handleMessage_def handleAdmitUser_def admit full Let_def new_participant_def
        rooms_set_def broadcast_def)
  show ?thesis
    using assms(2,5,7) bound
    by (simp add: lookup_waiting_def lookup_participant_def getRoom_def rooms update_conv'
        delete_conv')
qed

theorem admit_into_full_room_witness:
  "bound_moderator eve_waiting 0 = Some 0 \<and>
   p_roomId (heap eve_waiting 0) = ''PRE777'' \<and>
   waiting_ids eve_waiting ''PRE777'' = [''P8''] \<and>
   participant_ids eve_waiting ''PRE777'' = [''P1'', ''P7''] \<and>
   waiting_ids (handleMessage 0 (Some admit_eve) [] 7 eve_waiting) ''PRE777'' = [] \<and>
   participant_ids (handleMessage 0 (Some admit_eve) [] 7 eve_waiting) ''PRE777'' =
     [''P1'', ''P7''] \<and>
   lookup_waiting (handleMessage 0 (Some admit_eve) [] 7 eve_waiting) ''PRE777'' ''P8'' = None \<and>
   lookup_participant (handleMessage 0 (Some admit_eve) [] 7 eve_waiting) ''PRE777'' ''P8'' = None \<and>
   participants (handleMessage 0 (Some admit_eve) [] 7 eve_waiting) 2 = Some 2"
proof -
  have h1: "bound_moderator eve_waiting 0 = Some 0" by code_simp
  have r: "p_roomId (heap eve_waiting 0) = ''PRE777''" by code_simp
  have h2: "getRoom eve_waiting (p_roomId (heap eve_waiting 0)) =
              Some (the (getRoom eve_waiting ''PRE777''))" by code_simp
  have h3: "m_type admit_eve = AdmitUser" by code_simp
  have h4: "m_targetId admit_eve = Some ''P8''" by code_simp
  have h5: "map_of (r_waitingRoom (the (getRoom eve_waiting ''PRE777''))) ''P8'' = Some eve"
    by code_simp
  have h6: "size_ge (length (r_participants (the (getRoom eve_waiting ''PRE777''))))
              (r_maxParticipants (the (getRoom eve_waiting ''PRE777'')))"
    by code_simp
  have h7: "map_of (r_participants (the (getRoom eve_waiting ''PRE777''))) ''P8'' = None"
    by code_simp
  have s: "w_socket eve = 2" "nextAddr eve_waiting = 2" by code_simp+
  have e1: "waiting_ids eve_waiting ''PRE777'' = [''P8'']" by code_simp
  have e2: "participant_ids eve_waiting ''PRE777'' = [''P1'', ''P7'']" by code_simp
  have e3: "waiting_ids (handleMessage 0 (Some admit_eve) [] 7 eve_waiting) ''PRE777'' = []"
    by code_simp
  have e4: "participant_ids (handleMessage 0 (Some admit_eve) [] 7 eve_waiting) ''PRE777'' =
              [''P1'', ''P7'']" by code_simp
  show ?thesis
    using admit_into_full_room[OF h1 h2 h3 h4 h5 h6 h7, of "[]" 7] h1 r s e1 e2 e3 e4
    by simp
qed

end
